theory Spec2Isabelle
  imports Complex_Main "HOL-Library.Word" "HOL-Library.Sublist" "HOL-Library.Monad_Syntax"
begin

section \<open>JavaScript strings\<close>

text \<open>
  A JavaScript string is a sequence of UTF-16 code units; \<open>.length\<close> counts code units.
  The three punctuation marks the preprocessor inserts (em dash U+2014, bullet U+2022,
  horizontal ellipsis U+2026) are one code unit each.
\<close>

type_synonym jschar = "16 word"
type_synonym jsstring = "jschar list"

definition js :: "string \<Rightarrow> jsstring" where
  "js s = map of_char s"

definition ellipsis :: jschar where
  "ellipsis = 0x2026"

definition emdash :: jschar where
  "emdash = 0x2014"

definition bullet :: jschar where
  "bullet = 0x2022"

definition space :: jschar where
  "space = 0x20"

text \<open>
  \<open>String.prototype.trim\<close> strips WhiteSpace and LineTerminator code points from both
  ends: TAB, LF, VT, FF, CR, SP, NBSP, U+1680, U+2000..U+200A, U+2028, U+2029, U+202F,
  U+205F, U+3000 and U+FEFF.
\<close>

definition is_ws :: "jschar \<Rightarrow> bool" where
  "is_ws c = (c = 0x09 \<or> c = 0x0A \<or> c = 0x0B \<or> c = 0x0C \<or> c = 0x0D \<or> c = 0x20 \<or>
     c = 0xA0 \<or> c = 0x1680 \<or> (0x2000 \<le> c \<and> c \<le> 0x200A) \<or> c = 0x2028 \<or> c = 0x2029 \<or>
     c = 0x202F \<or> c = 0x205F \<or> c = 0x3000 \<or> c = 0xFEFF)"

definition trim :: "jsstring \<Rightarrow> jsstring" where
  "trim s = rev (dropWhile is_ws (rev (dropWhile is_ws s)))"

text \<open>\<open>Array.prototype.join\<close> on an array of strings.\<close>

fun join :: "jsstring \<Rightarrow> jsstring list \<Rightarrow> jsstring" where
  "join sep [] = []"
| "join sep [x] = x"
| "join sep (x # y # ys) = x @ sep @ join sep (y # ys)"

text \<open>\<open>Array.from(new Set(xs))\<close>: the distinct elements in order of first occurrence.\<close>

fun uniq :: "'a list \<Rightarrow> 'a list" where
  "uniq [] = []"
| "uniq (x # xs) = x # removeAll x (uniq xs)"

text \<open>\<open>s || ""\<close> and the interpolation \<open>${s}\<close> of a property that may be absent.\<close>

definition orEmpty :: "jsstring option \<Rightarrow> jsstring" where
  "orEmpty s = (case s of None \<Rightarrow> [] | Some t \<Rightarrow> t)"

definition interp :: "jsstring option \<Rightarrow> jsstring" where
  "interp s = (case s of None \<Rightarrow> js ''undefined'' | Some t \<Rightarrow> t)"

definition truthy :: "jsstring option \<Rightarrow> bool" where
  "truthy s = (case s of None \<Rightarrow> False | Some t \<Rightarrow> t \<noteq> [])"

text \<open>\<open>xs?.length || 0\<close> and the truthiness of \<open>xs?.length\<close>.\<close>

definition lengthOr0 :: "'a list option \<Rightarrow> nat" where
  "lengthOr0 xs = (case xs of None \<Rightarrow> 0 | Some l \<Rightarrow> length l)"

definition ceilDiv :: "nat \<Rightarrow> nat \<Rightarrow> nat" where
  "ceilDiv n d = (n + d - 1) div d"


section \<open>The resume record\<close>

text \<open>
  Every property of a resume object may be absent (\<open>None\<close>). The \<open>description\<close> of an
  experience or volunteer entry is declared \<open>string[] | string\<close> by the templates and by
  \<open>limitBulletPoints\<close>, and the code tests it with \<open>Array.isArray\<close>; it is a three-way sum.
\<close>

datatype description = DescAbsent | DescString jsstring | DescArray "jsstring list"

record ExperienceItem =
  role :: "jsstring option"
  company :: "jsstring option"
  duration :: "jsstring option"
  description :: description

record EducationItem =
  degree :: "jsstring option"
  school :: "jsstring option"
  year :: "jsstring option"

record Certification =
  cert_name :: "jsstring option"
  cert_year :: "jsstring option"

record VolunteerItem =
  vol_role :: "jsstring option"
  vol_org :: "jsstring option"
  vol_description :: description

record Contact =
  phone :: "jsstring option"
  email :: "jsstring option"
  address :: "jsstring option"
  linkedin :: "jsstring option"

record ResumeData =
  name :: "jsstring option"
  title :: "jsstring option"
  photoUrl :: "jsstring option"
  contact :: "Contact option"
  summary :: "jsstring option"
  experience :: "ExperienceItem list option"
  education :: "EducationItem list option"
  certifications :: "Certification list option"
  achivements :: "jsstring list option"
  volunteer :: "VolunteerItem list option"
  skills :: "jsstring list option"
  softSkills :: "jsstring list option"
  languages :: "jsstring list option"
  interests :: "jsstring list option"


section \<open>layoutOptimizer.ts\<close>

datatype density = Sparse | Normal | Dense | Overflow

datatype template = Minimal | Modern | Creative

record ContentMetrics =
  experienceCount :: nat
  educationCount :: nat
  skillsCount :: nat
  achievementsCount :: nat
  totalBulletPoints :: nat
  summaryLength :: nat
  hasImage :: bool
  sectionCount :: nat
  estimatedHeight :: nat
  contentDensity :: density

record LayoutConfig =
  nameFontSize :: int
  titleFontSize :: int
  sectionTitleFontSize :: int
  bodyFontSize :: int
  smallFontSize :: int
  sectionSpacing :: int
  itemSpacing :: int
  lineHeight :: rat
  containerPadding :: int
  sidebarWidth :: "int option"
  compactMode :: bool
  scaleFactor :: rat
  maxExperienceItems :: int
  maxEducationItems :: int
  maxBulletsPerExp :: int
  maxSkillsDisplay :: int
  maxAchievements :: int
  templateType :: template

definition usableHeight :: rat where
  "usableHeight = 1059"

text \<open>
  The density test at the end of \<open>analyzeContent\<close>, on an arbitrary height. The products
  \<open>usableHeight * 1.1\<close>, \<open>* 0.85\<close> and \<open>* 0.6\<close> are the rationals 1164.9, 900.15 and 635.4.
\<close>

definition classifyDensity :: "rat \<Rightarrow> density" where
  "classifyDensity h =
     (if h > usableHeight * (11 / 10) then Overflow
      else if h > usableHeight * (85 / 100) then Dense
      else if h < usableHeight * (6 / 10) then Sparse
      else Normal)"

definition bulletCount :: "ExperienceItem \<Rightarrow> nat" where
  "bulletCount e = (case description e of DescArray ds \<Rightarrow> length ds | _ \<Rightarrow> 1)"

definition analyzeContent :: "'a ResumeData_scheme \<Rightarrow> ContentMetrics" where
  "analyzeContent data =
    (let experienceCount = lengthOr0 (experience data);
         educationCount = lengthOr0 (education data);
         skillsCount = lengthOr0 (skills data);
         achievementsCount = lengthOr0 (achivements data);
         summaryLength = lengthOr0 (summary data);
         totalBulletPoints =
           (case experience data of None \<Rightarrow> 0
            | Some es \<Rightarrow> fold (\<lambda>e total. total + bulletCount e) es 0);
         softCount = lengthOr0 (softSkills data);
         langCount = lengthOr0 (languages data);
         certCount = lengthOr0 (certifications data);
         volCount = lengthOr0 (volunteer data);
         intCount = lengthOr0 (interests data);
         sectionCount =
           (if truthy (summary data) then 1 else 0) +
           (if experienceCount > 0 then 1 else 0) +
           (if educationCount > 0 then 1 else 0) +
           (if skillsCount > 0 then 1 else 0) +
           (if softCount > 0 then 1 else 0) +
           (if langCount > 0 then 1 else 0) +
           (if certCount > 0 then 1 else 0) +
           (if achievementsCount > 0 then 1 else 0) +
           (if volCount > 0 then 1 else 0) +
           (if intCount > 0 then 1 else 0);
         header = 100;
         image = (if truthy (photoUrl data) then 40 else 0);
         summaryPart =
           (if truthy (summary data) then 30 + ceilDiv summaryLength 80 * 16 else 0);
         limitedExperienceCount = min experienceCount 6;
         experiencePart =
           (if experienceCount > 0
            then 35 + limitedExperienceCount * 60 +
                 min totalBulletPoints (limitedExperienceCount * 4) * 16
            else 0);
         educationPart = (if educationCount > 0 then 35 + min educationCount 4 * 45 else 0);
         skillsPart = (if skillsCount > 0 then 35 + ceilDiv skillsCount 6 * 25 else 0);
         softPart = (if softCount > 0 then 35 + ceilDiv softCount 4 * 20 else 0);
         otherSections =
           (if langCount > 0 then 55 else 0) +
           (if certCount > 0 then 35 + min certCount 4 * 25 else 0) +
           (if achievementsCount > 0 then 35 + min achievementsCount 6 * 18 else 0) +
           (if volCount > 0 then 35 + min volCount 3 * 50 else 0) +
           (if intCount > 0 then 55 else 0);
         estimatedHeight = header + image + summaryPart + experiencePart + educationPart +
           skillsPart + softPart + otherSections
     in \<lparr> experienceCount = experienceCount,
          educationCount = educationCount,
          skillsCount = skillsCount,
          achievementsCount = achievementsCount,
          totalBulletPoints = totalBulletPoints,
          summaryLength = summaryLength,
          hasImage = truthy (photoUrl data),
          sectionCount = sectionCount,
          estimatedHeight = estimatedHeight,
          contentDensity = classifyDensity (of_nat estimatedHeight) \<rparr>)"

definition baseConfigs :: "template \<Rightarrow> LayoutConfig" where
  "baseConfigs t = (case t of
     Minimal \<Rightarrow>
       \<lparr> nameFontSize = 32, titleFontSize = 18, sectionTitleFontSize = 16, bodyFontSize = 12,
         smallFontSize = 11, sectionSpacing = 24, itemSpacing = 14, lineHeight = 14 / 10,
         containerPadding = 32, sidebarWidth = None, compactMode = False, scaleFactor = 1,
         maxExperienceItems = 6, maxEducationItems = 4, maxBulletsPerExp = 4,
         maxSkillsDisplay = 20, maxAchievements = 8, templateType = Minimal \<rparr>
   | Modern \<Rightarrow>
       \<lparr> nameFontSize = 36, titleFontSize = 20, sectionTitleFontSize = 15, bodyFontSize = 13,
         smallFontSize = 11, sectionSpacing = 28, itemSpacing = 18, lineHeight = 15 / 10,
         containerPadding = 40, sidebarWidth = Some 220, compactMode = False, scaleFactor = 1,
         maxExperienceItems = 5, maxEducationItems = 4, maxBulletsPerExp = 4,
         maxSkillsDisplay = 16, maxAchievements = 6, templateType = Modern \<rparr>
   | Creative \<Rightarrow>
       \<lparr> nameFontSize = 34, titleFontSize = 18, sectionTitleFontSize = 15, bodyFontSize = 12,
         smallFontSize = 11, sectionSpacing = 22, itemSpacing = 16, lineHeight = 14 / 10,
         containerPadding = 36, sidebarWidth = None, compactMode = False, scaleFactor = 1,
         maxExperienceItems = 5, maxEducationItems = 4, maxBulletsPerExp = 3,
         maxSkillsDisplay = 18, maxAchievements = 6, templateType = Creative \<rparr>)"

text \<open>
  \<open>templateType === 'modern' && config.sidebarWidth\<close>: the width is adjusted only when it is
  present and non-zero.
\<close>

definition adjustSidebar :: "template \<Rightarrow> (int \<Rightarrow> int) \<Rightarrow> int option \<Rightarrow> int option" where
  "adjustSidebar t f w =
     (case w of None \<Rightarrow> None
      | Some v \<Rightarrow> if t = Modern \<and> v \<noteq> 0 then Some (f v) else Some v)"

definition optimizeLayout :: "'a ResumeData_scheme \<Rightarrow> template \<Rightarrow> LayoutConfig" where
  "optimizeLayout data t =
    (let metrics = analyzeContent data;
         config = baseConfigs t
     in case contentDensity metrics of
          Overflow \<Rightarrow>
            config\<lparr> nameFontSize := max (nameFontSize config - 6) 26,
                    titleFontSize := max (titleFontSize config - 3) 15,
                    sectionTitleFontSize := max (sectionTitleFontSize config - 2) 13,
                    bodyFontSize := max (bodyFontSize config - 1) 11,
                    smallFontSize := max (smallFontSize config - 1) 10,
                    sectionSpacing := max (sectionSpacing config - 8) 16,
                    itemSpacing := max (itemSpacing config - 4) 10,
                    lineHeight := max (lineHeight config - 1 / 10) (13 / 10),
                    containerPadding := max (containerPadding config - 8) 24,
                    maxExperienceItems := max (maxExperienceItems config - 2) 3,
                    maxBulletsPerExp := max (maxBulletsPerExp config - 1) 2,
                    maxAchievements := max (maxAchievements config - 2) 4,
                    compactMode := True,
                    scaleFactor := 95 / 100,
                    sidebarWidth := adjustSidebar t (\<lambda>w. max (w - 30) 180) (sidebarWidth config) \<rparr>
        | Dense \<Rightarrow>
            config\<lparr> nameFontSize := max (nameFontSize config - 2) 28,
                    sectionSpacing := max (sectionSpacing config - 4) 18,
                    itemSpacing := max (itemSpacing config - 2) 12,
                    maxBulletsPerExp := max (maxBulletsPerExp config - 1) 3,
                    compactMode := True,
                    scaleFactor := 98 / 100 \<rparr>
        | Sparse \<Rightarrow>
            config\<lparr> nameFontSize := min (nameFontSize config + 4) 40,
                    titleFontSize := min (titleFontSize config + 2) 22,
                    sectionTitleFontSize := min (sectionTitleFontSize config + 1) 17,
                    bodyFontSize := min (bodyFontSize config + 1) 14,
                    sectionSpacing := min (sectionSpacing config + 6) 36,
                    itemSpacing := min (itemSpacing config + 4) 22,
                    lineHeight := min (lineHeight config + 1 / 10) (16 / 10),
                    compactMode := False,
                    scaleFactor := 102 / 100,
                    sidebarWidth := adjustSidebar t (\<lambda>w. min (w + 20) 250) (sidebarWidth config) \<rparr>
        | Normal \<Rightarrow>
            config\<lparr> compactMode := False, scaleFactor := 1 \<rparr>)"

text \<open>The range of the sidebar width: present exactly for the modern template.\<close>

fun sidebarInRange :: "template \<Rightarrow> int option \<Rightarrow> bool" where
  "sidebarInRange Modern (Some w) = (180 \<le> w \<and> w \<le> 250)"
| "sidebarInRange Modern None = False"
| "sidebarInRange t (Some w) = False"
| "sidebarInRange t None = True"


section \<open>universalTemplateHelpers.ts\<close>

datatype js_error = Error string | TypeError

text \<open>
  \<open>validateResumeData\<close> builds a new object: absent strings become \<open>""\<close>, lists that are
  not arrays become \<open>[]\<close>, and the contact block is rebuilt field by field
  (\<open>data?.contact?.phone || ''\<close>).
\<close>

definition listOrEmpty :: "'a list option \<Rightarrow> 'a list" where
  "listOrEmpty xs = (case xs of None \<Rightarrow> [] | Some l \<Rightarrow> l)"

definition contactField :: "Contact option \<Rightarrow> (Contact \<Rightarrow> jsstring option) \<Rightarrow> jsstring option" where
  "contactField c f = Some (orEmpty (case c of None \<Rightarrow> None | Some k \<Rightarrow> f k))"

definition validateResumeData :: "'a ResumeData_scheme \<Rightarrow> ResumeData" where
  "validateResumeData data =
     \<lparr> name = Some (orEmpty (name data)),
       title = Some (orEmpty (title data)),
       photoUrl = Some (orEmpty (photoUrl data)),
       contact = Some \<lparr> phone = contactField (contact data) phone,
                        email = contactField (contact data) email,
                        address = contactField (contact data) address,
                        linkedin = contactField (contact data) linkedin \<rparr>,
       summary = Some (orEmpty (summary data)),
       experience = Some (listOrEmpty (experience data)),
       education = Some (listOrEmpty (education data)),
       certifications = Some (listOrEmpty (certifications data)),
       achivements = Some (listOrEmpty (achivements data)),
       volunteer = Some (listOrEmpty (volunteer data)),
       skills = Some (listOrEmpty (skills data)),
       softSkills = Some (listOrEmpty (softSkills data)),
       languages = Some (listOrEmpty (languages data)),
       interests = Some (listOrEmpty (interests data)) \<rparr>"

text \<open>\<open>exp.description?.length || 0\<close>: a string description counts its code units.\<close>

definition descLength :: "description \<Rightarrow> nat" where
  "descLength d = (case d of DescAbsent \<Rightarrow> 0 | DescString s \<Rightarrow> length s | DescArray ds \<Rightarrow> length ds)"

text \<open>
  \<open>estimateContentHeight\<close> reads \<open>data.experience.length\<close> and \<open>data.education.length\<close>
  unguarded: an absent list is a TypeError. The summary term \<open>length / 80 * 20\<close> is a
  quarter of the length; the sum is kept as a rational.
\<close>

definition estimateContentHeight :: "'a ResumeData_scheme \<Rightarrow> js_error + rat" where
  "estimateContentHeight data =
    (case experience data of None \<Rightarrow> Inl TypeError
     | Some exps \<Rightarrow>
    (case education data of None \<Rightarrow> Inl TypeError
     | Some edus \<Rightarrow>
       Inr (80 +
         (if truthy (summary data)
          then max 40 (of_nat (lengthOr0 (summary data)) / 80 * 20) else 0) +
         of_nat (length exps * 60) +
         of_nat (sum_list (map (\<lambda>e. descLength (description e) * 20) exps)) +
         of_nat (length edus * 40) +
         of_nat (if lengthOr0 (achivements data) > 0
                 then min (lengthOr0 (achivements data) * 20) 100 else 0) +
         of_nat (if lengthOr0 (volunteer data) > 0 then lengthOr0 (volunteer data) * 50 else 0) +
         (if lengthOr0 (skills data) > 0 then 40 else 0) +
         (if lengthOr0 (softSkills data) > 0 then 30 else 0) +
         of_nat (if lengthOr0 (certifications data) > 0
                 then lengthOr0 (certifications data) * 25 else 0) +
         (if lengthOr0 (languages data) > 0 then 30 else 0) +
         (if lengthOr0 (interests data) > 0 then 30 else 0))))"


section \<open>resumePreprocess.ts\<close>

text \<open>
  The layout hints attached as \<open>_layout\<close>. The font sizes (\<open>nameFontSize\<close>,
  \<open>sectionFontSizes\<close>) are computed with \<open>Math.pow\<close> on IEEE doubles from \<open>totalChars\<close>
  alone; they influence no other field and are left out of the record.
\<close>

record LayoutHints =
  hintCompactMode :: bool
  hintMaxExperienceItems :: nat
  hintMaxBulletsPerExp :: nat
  hintMaxEducationItems :: nat
  truncateCharPerLine :: nat
  sidebarWidthPx :: nat

record ProcessedResume = ResumeData +
  layout :: LayoutHints
  layoutConfig :: LayoutConfig
  contentMetrics :: ContentMetrics

fun mapE :: "('a \<Rightarrow> js_error + 'b) \<Rightarrow> 'a list \<Rightarrow> js_error + 'b list" where
  "mapE f [] = Inr []"
| "mapE f (x # xs) =
     (case f x of Inl err \<Rightarrow> Inl err
      | Inr y \<Rightarrow> (case mapE f xs of Inl err \<Rightarrow> Inl err | Inr ys \<Rightarrow> Inr (y # ys)))"

text \<open>
  \<open>(e.description || [])\<close> used as an array (\<open>.join\<close>, \<open>.slice(..).map\<close>): an absent or
  empty-string description gives \<open>[]\<close>, a non-empty string has no \<open>join\<close> and no \<open>map\<close>.
\<close>

definition descArray :: "description \<Rightarrow> js_error + jsstring list" where
  "descArray d = (case d of
       DescAbsent \<Rightarrow> Inr []
     | DescString s \<Rightarrow> if s = [] then Inr [] else Inl TypeError
     | DescArray ds \<Rightarrow> Inr ds)"

definition expText :: "ExperienceItem \<Rightarrow> js_error + jsstring" where
  "expText e = (case descArray (description e) of Inl err \<Rightarrow> Inl err
     | Inr ds \<Rightarrow> Inr (interp (role e) @ [space] @ interp (company e) @ [space] @
                      interp (duration e) @ [space] @ join [space] ds))"

definition joinExpText :: "ExperienceItem list option \<Rightarrow> js_error + jsstring" where
  "joinExpText es = (case mapE expText (listOrEmpty es) of Inl err \<Rightarrow> Inl err
     | Inr ts \<Rightarrow> Inr (join [space] ts))"

definition joinEduText :: "EducationItem list option \<Rightarrow> jsstring" where
  "joinEduText es =
     join [space] (map (\<lambda>e. interp (degree e) @ [space] @ interp (school e) @ [space] @
                           interp (year e)) (listOrEmpty es))"

definition joinSimple :: "jsstring list option \<Rightarrow> jsstring" where
  "joinSimple arr = join [space] (listOrEmpty arr)"

definition certText :: "Certification \<Rightarrow> jsstring" where
  "certText c = orEmpty (cert_name c) @ orEmpty (cert_year c)"

definition volText :: "VolunteerItem \<Rightarrow> js_error + jsstring" where
  "volText v = (case descArray (vol_description v) of Inl err \<Rightarrow> Inl err
     | Inr ds \<Rightarrow> Inr (orEmpty (vol_role v) @ [space] @ orEmpty (vol_org v) @ [space] @
                      join [space] ds))"

definition totalChars :: "'a ResumeData_scheme \<Rightarrow> js_error + nat" where
  "totalChars data =
    (case joinExpText (experience data) of Inl err \<Rightarrow> Inl err
     | Inr expT \<Rightarrow>
    (case mapE volText (listOrEmpty (volunteer data)) of Inl err \<Rightarrow> Inl err
     | Inr volTs \<Rightarrow>
       Inr (max (length (orEmpty (name data)) +
                 length (orEmpty (title data)) +
                 length (orEmpty (summary data)) +
                 length expT +
                 length (joinEduText (education data)) +
                 length (joinSimple (skills data)) +
                 length (joinSimple (softSkills data)) +
                 length (joinSimple (achivements data)) +
                 length (joinSimple (languages data)) +
                 length (join [space] (map certText (listOrEmpty (certifications data)))) +
                 length (join [space] volTs))
                50)))"

definition layoutHints :: "bool \<Rightarrow> LayoutHints" where
  "layoutHints c =
     \<lparr> hintCompactMode = c,
       hintMaxExperienceItems = (if c then 3 else 6),
       hintMaxBulletsPerExp = (if c then 2 else 4),
       hintMaxEducationItems = (if c then 2 else 6),
       truncateCharPerLine = (if c then 120 else 220),
       sidebarWidthPx = 180 \<rparr>"

definition keepExp :: "ExperienceItem \<Rightarrow> bool" where
  "keepExp e = (truthy (role e) \<or> truthy (company e))"

definition keepEdu :: "EducationItem \<Rightarrow> bool" where
  "keepEdu e = (truthy (degree e) \<or> truthy (school e))"

text \<open>The achievement string synthesized from an overflowing experience entry.\<close>

definition entryText :: "nat \<Rightarrow> ExperienceItem \<Rightarrow> jsstring list \<Rightarrow> jsstring" where
  "entryText maxB e ds =
     join [space, bullet, space]
       (filter (\<lambda>s. s \<noteq> [])
         (trim (orEmpty (role e) @ [space, emdash, space] @ orEmpty (company e)) #
          map trim (take maxB ds)))"

definition expEntry :: "nat \<Rightarrow> ExperienceItem \<Rightarrow> js_error + jsstring" where
  "expEntry maxB e = (case descArray (description e) of Inl err \<Rightarrow> Inl err
     | Inr ds \<Rightarrow> Inr (entryText maxB e ds))"

text \<open>The achievement string synthesized from an overflowing education entry.\<close>

definition eduEntry :: "EducationItem \<Rightarrow> jsstring" where
  "eduEntry ed = trim (orEmpty (degree ed) @ [space, emdash, space] @ orEmpty (school ed) @
                       [space] @ trim (orEmpty (year ed)))"

definition truncateLine :: "nat \<Rightarrow> jsstring \<Rightarrow> jsstring" where
  "truncateLine n d = (if length d > n then trim (take (n - 1) d) @ [ellipsis] else d)"

definition trimBullets :: "nat \<Rightarrow> nat \<Rightarrow> ExperienceItem \<Rightarrow> ExperienceItem" where
  "trimBullets maxB n e =
     e\<lparr> description :=
          DescArray (map (truncateLine n)
            (case description e of DescArray ds \<Rightarrow> map trim (take maxB ds) | _ \<Rightarrow> [])) \<rparr>"

definition normCert :: "Certification \<Rightarrow> Certification" where
  "normCert c = \<lparr> cert_name = Some (trim (orEmpty (cert_name c))),
                  cert_year = Some (trim (orEmpty (cert_year c))) \<rparr>"

definition uniqStrings :: "jsstring list option \<Rightarrow> jsstring list" where
  "uniqStrings arr = uniq (filter (\<lambda>s. s \<noteq> []) (map trim (listOrEmpty arr)))"

definition emptyWarning :: string where
  "emptyWarning = ''preprocessResume: Processed resume appears to be mostly empty''"

text \<open>
  \<open>preprocessResume\<close>. The argument is \<open>None\<close> when it is absent; the result is the thrown
  error or the returned record together with the lines written by \<open>console.warn\<close>.
  \<open>JSON.parse(JSON.stringify(validatedData))\<close> copies the validated value; on values it
  is the identity.
\<close>

definition preprocessResume ::
    "'a ResumeData_scheme option \<Rightarrow> js_error + (ProcessedResume \<times> string list)" where
  "preprocessResume input =
    (case input of None \<Rightarrow> Inl (Error ''preprocessResume: input is required'')
     | Some inp \<Rightarrow>
    (let data = validateResumeData inp in
     case estimateContentHeight data of Inl err \<Rightarrow> Inl err
     | Inr height \<Rightarrow>
    (let isPDFSafe = (height \<le> 800);
         metrics = analyzeContent data;
         config = optimizeLayout data Modern in
     case totalChars data of Inl err \<Rightarrow> Inl err
     | Inr chars \<Rightarrow>
    (let isCompact = (chars > 2200 \<or> \<not> isPDFSafe);
         hints = layoutHints isCompact;
         maxE = hintMaxExperienceItems hints;
         maxB = hintMaxBulletsPerExp hints;
         maxEd = hintMaxEducationItems hints;
         exps0 = (case experience data of None \<Rightarrow> [] | Some es \<Rightarrow> filter keepExp es);
         edus0 = (case education data of None \<Rightarrow> [] | Some es \<Rightarrow> filter keepEdu es) in
     case (if length exps0 > maxE then mapE (expEntry maxB) (drop maxE exps0) else Inr []) of
       Inl err \<Rightarrow> Inl err
     | Inr expEntries \<Rightarrow>
    (let exps1 = (if length exps0 > maxE then take maxE exps0 else exps0);
         edus1 = (if length edus0 > maxEd then take maxEd edus0 else edus0);
         eduEntries = (if length edus0 > maxEd then map eduEntry (drop maxEd edus0) else []);
         extraAchievements =
           filter (\<lambda>s. s \<noteq> []) expEntries @ filter (\<lambda>s. s \<noteq> []) eduEntries;
         exps2 = map (trimBullets maxB (truncateCharPerLine hints)) exps1;
         certs = (case certifications data of None \<Rightarrow> []
                  | Some cs \<Rightarrow> take 20 (map normCert cs));
         soft = take (if isCompact then 6 else 12) (uniqStrings (softSkills data));
         skl = take (if isCompact then 12 else 30) (uniqStrings (skills data));
         langs = take (if isCompact then 3 else 8) (uniqStrings (languages data));
         existingAch = (case achivements data of None \<Rightarrow> [] | Some xs \<Rightarrow> map trim xs);
         combined = filter (\<lambda>s. s \<noteq> []) (uniq (existingAch @ extraAchievements));
         achCap = (if isCompact then 6 else 12);
         result =
           \<lparr> name = name data, title = title data, photoUrl = photoUrl data,
             contact = contact data, summary = summary data,
             experience = Some exps2, education = Some edus1,
             certifications = Some certs, achivements = Some (take achCap combined),
             volunteer = volunteer data, skills = Some skl, softSkills = Some soft,
             languages = Some langs, interests = interests data,
             layout = hints, layoutConfig = config, contentMetrics = metrics \<rparr>;
         warnings =
           (if \<not> truthy (name data) \<and> \<not> truthy (title data) \<and> \<not> truthy (summary data) \<and>
               length exps2 = 0
            then [emptyWarning] else [])
     in Inr (result, warnings))))))"


section \<open>Input conditions and views used in the statements\<close>

text \<open>
  The array view of a description (\<open>[]\<close> when it is not an array), and the inputs on
  which no description is a non-empty string.
\<close>

definition bullets :: "description \<Rightarrow> jsstring list" where
  "bullets d = (case d of DescArray ds \<Rightarrow> ds | _ \<Rightarrow> [])"

definition descOk :: "description \<Rightarrow> bool" where
  "descOk d = (case d of DescString s \<Rightarrow> s = [] | _ \<Rightarrow> True)"

definition wellFormed :: "'a ResumeData_scheme \<Rightarrow> bool" where
  "wellFormed x =
     (list_all (\<lambda>e. descOk (description e)) (listOrEmpty (experience x)) \<and>
      list_all (\<lambda>v. descOk (vol_description v)) (listOrEmpty (volunteer x)))"

definition trimStart :: "jsstring \<Rightarrow> jsstring" where
  "trimStart s = dropWhile is_ws s"

definition trimEnd :: "jsstring \<Rightarrow> jsstring" where
  "trimEnd s = rev (dropWhile is_ws (rev s))"

definition trimmed :: "jsstring \<Rightarrow> bool" where
  "trimmed s = (s = [] \<or> (\<not> is_ws (hd s) \<and> \<not> is_ws (last s)))"

definition nonEmpty :: "jsstring \<Rightarrow> bool" where
  "nonEmpty s = (s \<noteq> [])"

text \<open>The compact-mode decision of \<open>preprocessResume\<close> as a function of its argument.\<close>

definition compactModeOf :: "'a ResumeData_scheme \<Rightarrow> bool" where
  "compactModeOf x =
     (case estimateContentHeight (validateResumeData x) of Inl err \<Rightarrow> False
      | Inr h \<Rightarrow>
     (case totalChars (validateResumeData x) of Inl err \<Rightarrow> False
      | Inr n \<Rightarrow> n > 2200 \<or> \<not> h \<le> 800))"

text \<open>
  The achievement strings synthesized from the entries beyond the caps, experience
  first, education second, as they are pushed to \<open>extraAchievements\<close>.
\<close>

definition extraOf :: "bool \<Rightarrow> 'a ResumeData_scheme \<Rightarrow> jsstring list" where
  "extraOf c x =
     filter nonEmpty
       (map (\<lambda>e. entryText (if c then 2 else 4) e (bullets (description e)))
         (drop (if c then 3 else 6) (filter keepExp (listOrEmpty (experience x))))) @
     filter nonEmpty
       (map eduEntry (drop (if c then 2 else 6) (filter keepEdu (listOrEmpty (education x)))))"

text \<open>Projections of a result: a list field of the returned record, and the log.\<close>

definition outList ::
    "(ProcessedResume \<Rightarrow> 'a list option) \<Rightarrow> js_error + (ProcessedResume \<times> string list) \<Rightarrow> 'a list" where
  "outList f r = (case r of Inl err \<Rightarrow> [] | Inr (y, w) \<Rightarrow> listOrEmpty (f y))"

definition outWarnings :: "js_error + (ProcessedResume \<times> string list) \<Rightarrow> string list" where
  "outWarnings r = (case r of Inl err \<Rightarrow> [] | Inr (y, w) \<Rightarrow> w)"

definition outHints :: "js_error + (ProcessedResume \<times> string list) \<Rightarrow> LayoutHints option" where
  "outHints r = (case r of Inl err \<Rightarrow> None | Inr (y, w) \<Rightarrow> Some (layout y))"


section \<open>Example records\<close>

text \<open>
  \<open>blankForm\<close> is the record \<open>initializeFormData\<close> of the input form starts from, with
  no name, role or photo entered.
\<close>

definition emptyResume :: ResumeData where
  "emptyResume =
     \<lparr> name = None, title = None, photoUrl = None, contact = None, summary = None,
       experience = None, education = None, certifications = None, achivements = None,
       volunteer = None, skills = None, softSkills = None, languages = None,
       interests = None \<rparr>"

definition mkExp :: "string \<Rightarrow> string \<Rightarrow> string list \<Rightarrow> ExperienceItem" where
  "mkExp r c ds =
     \<lparr> role = Some (js r), company = Some (js c), duration = Some [],
       description = DescArray (map js ds) \<rparr>"

definition blankForm :: ResumeData where
  "blankForm = emptyResume
     \<lparr> name := Some [], title := Some [], summary := Some [],
       experience := Some [\<lparr> role = Some [], company = Some [], duration = Some [],
                             description = DescArray [[]] \<rparr>],
       education := Some [\<lparr> degree = Some [], school = Some [], year = Some [] \<rparr>],
       certifications := Some [], achivements := Some [], volunteer := Some [],
       skills := Some [], softSkills := Some [], languages := Some [], interests := Some [] \<rparr>"


definition skillsExample :: ResumeData where
  "skillsExample = emptyResume
     \<lparr> name := Some (js ''Ada''),
       skills := Some [js '' React'', js ''React '', js ''react'', [], js ''Go''] \<rparr>"

definition dupCerts :: ResumeData where
  "dupCerts = emptyResume
     \<lparr> name := Some (js ''Ada''),
       certifications := Some [\<lparr> cert_name = Some (js ''AWS''), cert_year = Some (js ''2020'') \<rparr>,
                               \<lparr> cert_name = Some (js ''AWS''), cert_year = Some (js ''2020'') \<rparr>] \<rparr>"

definition ledTeam :: ResumeData where
  "ledTeam = emptyResume
     \<lparr> name := Some (js ''Ada''),
       achivements := Some [js ''Led team'', js ''Led team'', js ''Shipped X''] \<rparr>"


definition eightJobs :: ResumeData where
  "eightJobs = emptyResume
     \<lparr> name := Some (js ''Ada''),
       experience := Some (map (\<lambda>r. mkExp r ''Acme'' [''Built X''])
         [''Dev1'', ''Dev2'', ''Dev3'', ''Dev4'', ''Dev5'', ''Dev6'', ''Dev7'', ''Dev8'']) \<rparr>"

definition eightJobsTwelveAwards :: ResumeData where
  "eightJobsTwelveAwards = emptyResume
     \<lparr> name := Some (js ''Ada''),
       experience := Some (map (\<lambda>r. mkExp r ''Acme'' [])
         [''Dev1'', ''Dev2'', ''Dev3'', ''Dev4'', ''Dev5'', ''Dev6'', ''Dev7'', ''Dev8'']),
       achivements := Some (map js [''A01'', ''A02'', ''A03'', ''A04'', ''A05'', ''A06'',
                                     ''A07'', ''A08'', ''A09'', ''A10'', ''A11'', ''A12'']) \<rparr>"

definition mkEdu :: "string \<Rightarrow> string \<Rightarrow> string \<Rightarrow> EducationItem" where
  "mkEdu d s y = \<lparr> degree = Some (js d), school = Some (js s), year = Some (js y) \<rparr>"

definition sevenDegrees :: ResumeData where
  "sevenDegrees = emptyResume
     \<lparr> name := Some (js ''Ada''),
       education := Some (map (\<lambda>d. mkEdu d ''MIT'' ''2001'')
         [''D1'', ''D2'', ''D3'', ''D4'', ''D5'', ''D6'', ''D7'']) \<rparr>"


definition letterA :: jschar where
  "letterA = 0x61"

definition longBullet :: jsstring where
  "longBullet = replicate 300 letterA"

definition spacedBullet :: jsstring where
  "spacedBullet = replicate 118 letterA @ [space] @ replicate 181 letterA"

definition wordyResume :: "jsstring \<Rightarrow> ResumeData" where
  "wordyResume b = emptyResume
     \<lparr> name := Some (js ''Ada''),
       summary := Some (replicate 3000 letterA),
       experience := Some [\<lparr> role = Some (js ''Dev''), company = Some (js ''Acme''),
                             duration = Some [], description = DescArray [b] \<rparr>] \<rparr>"


definition stringDescription :: ResumeData where
  "stringDescription = emptyResume
     \<lparr> name := Some (js ''Ada''),
       experience := Some [\<lparr> role = Some (js ''Dev''), company = Some (js ''Acme''),
                             duration = Some (js ''2020''),
                             description = DescString (js ''Built things'') \<rparr>] \<rparr>"


definition rerun :: "'a ResumeData_scheme \<Rightarrow> js_error + (ProcessedResume \<times> string list)" where
  "rerun x = (case preprocessResume (Some x) of Inl err \<Rightarrow> Inl err
              | Inr (y, w) \<Rightarrow> preprocessResume (Some y))"

definition sevenJobsOf :: "jsstring \<Rightarrow> ResumeData" where
  "sevenJobsOf n = emptyResume
     \<lparr> name := Some n,
       experience := Some (map (\<lambda>r. mkExp r ''Acme'' [''Built X''])
         [''Dev1'', ''Dev2'', ''Dev3'', ''Dev4'', ''Dev5'', ''Dev6'', ''Dev7'']) \<rparr>"

definition sevenJobsProcessed :: "jsstring \<Rightarrow> ResumeData" where
  "sevenJobsProcessed n =
     \<lparr> name = Some n, title = Some [], photoUrl = Some [],
       contact = Some \<lparr> phone = Some [], email = Some [], address = Some [], linkedin = Some [] \<rparr>,
       summary = Some [],
       experience = Some (map (\<lambda>r. mkExp r ''Acme'' [''Built X''])
         [''Dev1'', ''Dev2'', ''Dev3'', ''Dev4'', ''Dev5'', ''Dev6'']),
       education = Some [], certifications = Some [],
       achivements = Some [js ''Dev7'' @ [space, emdash, space] @ js ''Acme'' @
                           [space, bullet, space] @ js ''Built X''],
       volunteer = Some [], skills = Some [], softSkills = Some [], languages = Some [],
       interests = Some [] \<rparr>"


definition paddedAchievements :: ResumeData where
  "paddedAchievements = emptyResume
     \<lparr> name := Some (js ''Ada''),
       achivements := Some [js ''Led team'', js ''Led team '', [], js ''Shipped X''] \<rparr>"

definition eightJobsLedTeam :: ResumeData where
  "eightJobsLedTeam = eightJobs
     \<lparr> achivements := Some [js ''Led team'', js ''Led team'', js ''Shipped X''] \<rparr>"


section \<open>Objects and arrays in a store\<close>

text \<open>
  For the question whether the argument is modified, objects and arrays live in a store:
  a list of cells addressed by position, where allocation appends a cell. A property
  value or array element is a string or a reference. The three layout records attached
  at the end hold numbers and flags only and are kept as whole cells.
\<close>

type_synonym addr = nat

datatype hval = HStr jsstring | HRef addr

datatype cell =
    HObj "(string \<times> hval) list"
  | HArr "hval list"
  | HLayout LayoutHints
  | HConfig LayoutConfig
  | HMetrics ContentMetrics

type_synonym heap = "cell list"


definition alloc :: "heap \<Rightarrow> cell \<Rightarrow> hval \<times> heap" where
  "alloc h c = (HRef (length h), h @ [c])"






subsection \<open>\<open>validateResumeData\<close> on the store\<close>






subsection \<open>\<open>JSON.stringify\<close>: reading a resume out of the store\<close>















subsection \<open>\<open>JSON.parse\<close> and the array methods: building new objects and arrays\<close>















subsection \<open>\<open>preprocessResume\<close> on the store\<close>




subsection \<open>References and reachability\<close>

definition valRefs :: "hval \<Rightarrow> addr list" where
  "valRefs v = (case v of HRef a \<Rightarrow> [a] | HStr s \<Rightarrow> [])"

fun cellRefs :: "cell \<Rightarrow> addr list" where
  "cellRefs (HObj ps) = concat (map (\<lambda>p. valRefs (snd p)) ps)"
| "cellRefs (HArr vs) = concat (map valRefs vs)"
| "cellRefs (HLayout l) = []"
| "cellRefs (HConfig c) = []"
| "cellRefs (HMetrics m) = []"


text \<open>
  From address \<open>n\<close> on, the cells refer only to cells from \<open>n\<close> on; a list of addresses
  all from \<open>n\<close> on; and a step from one store to a longer one that keeps both.
\<close>

definition sealed :: "nat \<Rightarrow> heap \<Rightarrow> bool" where
  "sealed n h = (\<forall>i. n \<le> i \<longrightarrow> i < length h \<longrightarrow>
                   (\<forall>a \<in> set (cellRefs (h ! i)). n \<le> a \<and> a < length h))"

definition refsIn :: "nat \<Rightarrow> heap \<Rightarrow> addr list \<Rightarrow> bool" where
  "refsIn n h rs = (\<forall>a \<in> set rs. n \<le> a \<and> a < length h)"


definition step :: "nat \<Rightarrow> heap \<Rightarrow> heap \<Rightarrow> addr list \<Rightarrow> bool" where
  "step n h h' rs = (prefix h h' \<and> (n \<le> length h \<longrightarrow> sealed n h \<longrightarrow> sealed n h' \<and> refsIn n h' rs))"

subsection \<open>Example stores\<close>






section \<open>Auxiliary facts\<close>

subsection \<open>Lists and strings\<close>

lemma set_uniq: "set (uniq xs) = set xs"
  by (induction xs) auto

lemma distinct_uniq: "distinct (uniq xs)"
  by (induction xs) (auto simp: distinct_removeAll)

lemma uniq_distinct: "distinct xs \<Longrightarrow> uniq xs = xs"
  by (induction xs) (auto simp: set_uniq)

lemma uniq_filter: "uniq (filter P xs) = filter P (uniq xs)"
proof (induction xs)
  case Nil
  show ?case by simp
next
  case (Cons x xs)
  then show ?case
    by (auto simp: removeAll_filter_not_eq intro!: filter_cong)
qed

lemma uniq_append: "uniq (xs @ ys) = uniq xs @ filter (\<lambda>y. y \<notin> set xs) (uniq ys)"
proof (induction xs)
  case Nil
  show ?case by simp
next
  case (Cons x xs)
  show ?case
    by (auto simp: Cons removeAll_filter_not_eq intro!: filter_cong)
qed

lemma is_ws_marks: "\<not> is_ws ellipsis" "\<not> is_ws emdash" "\<not> is_ws bullet" "is_ws space"
  by (simp_all add: is_ws_def ellipsis_def emdash_def bullet_def space_def)

lemma dropWhile_hd: "xs \<noteq> [] \<Longrightarrow> \<not> P (hd xs) \<Longrightarrow> dropWhile P xs = xs"
  by (cases xs) auto

lemma trim_trimmed: "trimmed s \<Longrightarrow> trim s = s"
  by (cases "s = []") (auto simp: trimmed_def trim_def dropWhile_hd hd_rev)

lemma last_dropWhile: "dropWhile P xs \<noteq> [] \<Longrightarrow> last (dropWhile P xs) = last xs"
  by (induction xs) (auto split: if_splits)

lemma trimmed_trim: "trimmed (trim s)"
proof (cases "trim s = []")
  case True
  then show ?thesis by (simp add: trimmed_def)
next
  case False
  define t where "t = dropWhile is_ws s"
  define u where "u = dropWhile is_ws (rev t)"
  have ts: "trim s = rev u" by (simp add: trim_def t_def u_def)
  with False have u: "u \<noteq> []" by simp
  then have t: "t \<noteq> []" by (auto simp: u_def)
  have "\<not> is_ws (hd u)" using u unfolding u_def by (rule hd_dropWhile)
  moreover have "last u = last (rev t)" using u unfolding u_def by (rule last_dropWhile)
  then have "last u = hd t" using t by (simp add: last_rev)
  moreover have "\<not> is_ws (hd t)" using t unfolding t_def by (rule hd_dropWhile)
  ultimately show ?thesis
    using u by (simp add: trimmed_def ts hd_rev last_rev)
qed

lemma trim_idem: "trim (trim s) = trim s"
  by (simp add: trim_trimmed trimmed_trim)

lemma length_trim: "length (trim s) \<le> length s"
proof -
  have "length (dropWhile is_ws (rev (dropWhile is_ws s))) \<le> length (rev (dropWhile is_ws s))"
    by (rule length_dropWhile_le)
  also have "\<dots> \<le> length s" by (simp add: length_dropWhile_le)
  finally show ?thesis by (simp add: trim_def)
qed

lemma truncateLine_le: "0 < n \<Longrightarrow> length (truncateLine n d) \<le> n"
proof -
  assume n: "0 < n"
  have "length (trim (take (n - 1) d)) \<le> n - 1"
    using length_trim[of "take (n - 1) d"] by simp
  then show ?thesis using n by (simp add: truncateLine_def) arith
qed

lemma trimmed_snoc: "trimmed s \<Longrightarrow> \<not> is_ws c \<Longrightarrow> trimmed (s @ [c])"
  by (cases s) (auto simp: trimmed_def)

lemma trimmed_truncateLine: "trimmed d \<Longrightarrow> trimmed (truncateLine n d)"
  by (simp add: truncateLine_def trimmed_snoc trimmed_trim is_ws_marks)

lemma truncateLine_exact:
  assumes "n < length d" "2 \<le> n" "\<not> is_ws (d ! (n - 2))" "trimmed d"
  shows "truncateLine n d = take (n - 1) d @ [ellipsis]"
proof -
  let ?p = "take (n - 1) d"
  have ne: "?p \<noteq> []" using assms by auto
  have "hd ?p = hd d" using assms by (simp add: hd_take)
  moreover have "last ?p = d ! (n - 2)"
    using assms ne by (simp add: last_conv_nth) (metis Suc_1 diff_Suc_eq_diff_pred numeral_2_eq_2)
  moreover have "\<not> is_ws (hd d)" using assms by (auto simp: trimmed_def)
  ultimately have "trimmed ?p" using assms by (simp add: trimmed_def)
  then show ?thesis using assms by (simp add: truncateLine_def trim_trimmed)
qed

subsection \<open>The result of \<open>preprocessResume\<close> on well-formed input\<close>

lemma descArray_ok: "descOk d \<Longrightarrow> descArray d = Inr (bullets d)"
  by (cases d) (simp_all add: descOk_def descArray_def bullets_def)

lemma mapE_map: "(\<And>x. x \<in> set xs \<Longrightarrow> f x = Inr (g x)) \<Longrightarrow> mapE f xs = Inr (map g xs)"
  by (induction xs) simp_all

lemma mapE_ex: "list_all (\<lambda>x. \<exists>y. f x = Inr y) xs \<Longrightarrow> \<exists>ys. mapE f xs = Inr ys"
  by (induction xs) auto

lemma estimate_validated: "\<exists>h. estimateContentHeight (validateResumeData x) = Inr h"
  by (simp add: estimateContentHeight_def validateResumeData_def)

lemma expText_ok: "descOk (description e) \<Longrightarrow> \<exists>t. expText e = Inr t"
  by (simp add: expText_def descArray_ok)

lemma totalChars_ok: "wellFormed x \<Longrightarrow> \<exists>n. totalChars (validateResumeData x) = Inr n"
proof -
  assume wf: "wellFormed x"
  have "list_all (\<lambda>e. \<exists>t. expText e = Inr t) (listOrEmpty (experience x))"
    using wf by (auto simp: wellFormed_def list_all_iff expText_ok)
  then obtain ts where ts: "mapE expText (listOrEmpty (experience x)) = Inr ts"
    using mapE_ex by blast
  have "list_all (\<lambda>v. \<exists>t. volText v = Inr t) (listOrEmpty (volunteer x))"
    using wf by (auto simp: wellFormed_def list_all_iff volText_def descArray_ok)
  then obtain vs where vs: "mapE volText (listOrEmpty (volunteer x)) = Inr vs"
    using mapE_ex by blast
  show ?thesis
    using ts vs by (simp add: totalChars_def joinExpText_def validateResumeData_def listOrEmpty_def)
qed

lemma expEntry_ok:
  "descOk (description e) \<Longrightarrow> expEntry b e = Inr (entryText b e (bullets (description e)))"
  by (simp add: expEntry_def descArray_ok)

lemma preprocess_eq:
  assumes wf: "wellFormed x"
  defines "c \<equiv> compactModeOf x"
  shows "preprocessResume (Some x) = Inr (
           \<lparr> name = Some (orEmpty (name x)), title = Some (orEmpty (title x)),
             photoUrl = Some (orEmpty (photoUrl x)),
             contact = contact (validateResumeData x), summary = Some (orEmpty (summary x)),
             experience = Some (map (trimBullets (if c then 2 else 4) (if c then 120 else 220))
                (take (if c then 3 else 6) (filter keepExp (listOrEmpty (experience x))))),
             education = Some (take (if c then 2 else 6) (filter keepEdu (listOrEmpty (education x)))),
             certifications = Some (take 20 (map normCert (listOrEmpty (certifications x)))),
             achivements = Some (take (if c then 6 else 12)
                (filter nonEmpty (uniq (map trim (listOrEmpty (achivements x)) @ extraOf c x)))),
             volunteer = Some (listOrEmpty (volunteer x)),
             skills = Some (take (if c then 12 else 30) (uniqStrings (skills x))),
             softSkills = Some (take (if c then 6 else 12) (uniqStrings (softSkills x))),
             languages = Some (take (if c then 3 else 8) (uniqStrings (languages x))),
             interests = Some (listOrEmpty (interests x)),
             layout = layoutHints c, layoutConfig = optimizeLayout (validateResumeData x) Modern,
             contentMetrics = analyzeContent (validateResumeData x) \<rparr>,
           (if \<not> truthy (name x) \<and> \<not> truthy (title x) \<and> \<not> truthy (summary x) \<and>
             filter keepExp (listOrEmpty (experience x)) = [] then [emptyWarning] else []))"
proof -
  obtain h where h: "estimateContentHeight (validateResumeData x) = Inr h"
    using estimate_validated by blast
  obtain n where n: "totalChars (validateResumeData x) = Inr n"
    using totalChars_ok[OF wf] by blast
  have c: "c = (n > 2200 \<or> \<not> h \<le> 800)"
    by (simp add: c_def compactModeOf_def h n)
  have ee: "\<And>b k. mapE (expEntry b) (drop k (filter keepExp (listOrEmpty (experience x)))) =
      Inr (map (\<lambda>e. entryText b e (bullets (description e)))
            (drop k (filter keepExp (listOrEmpty (experience x)))))"
    using wf by (intro mapE_map expEntry_ok) (auto simp: wellFormed_def list_all_iff dest: in_set_dropD)
  have v: "experience (validateResumeData x) = Some (listOrEmpty (experience x))"
    "education (validateResumeData x) = Some (listOrEmpty (education x))"
    "certifications (validateResumeData x) = Some (listOrEmpty (certifications x))"
    "achivements (validateResumeData x) = Some (listOrEmpty (achivements x))"
    "skills (validateResumeData x) = Some (listOrEmpty (skills x))"
    "softSkills (validateResumeData x) = Some (listOrEmpty (softSkills x))"
    "languages (validateResumeData x) = Some (listOrEmpty (languages x))"
    "volunteer (validateResumeData x) = Some (listOrEmpty (volunteer x))"
    "interests (validateResumeData x) = Some (listOrEmpty (interests x))"
    "name (validateResumeData x) = Some (orEmpty (name x))"
    "title (validateResumeData x) = Some (orEmpty (title x))"
    "summary (validateResumeData x) = Some (orEmpty (summary x))"
    "photoUrl (validateResumeData x) = Some (orEmpty (photoUrl x))"
    by (simp_all add: validateResumeData_def)
  have t1: "\<And>k (xs::ExperienceItem list). (if k < length xs then take k xs else xs) = take k xs"
    "\<And>k (xs::EducationItem list). (if k < length xs then take k xs else xs) = take k xs"
    "\<And>k f (xs::EducationItem list).
        (if k < length xs then map f (drop k xs) else []) = map f (drop k xs)"
    "\<And>k f (xs::ExperienceItem list).
        (if k < length xs then mapE f (drop k xs) else Inr []) = mapE f (drop k xs)"
    by simp_all
  have lh: "hintMaxExperienceItems (layoutHints c) = (if c then 3 else 6)"
    "hintMaxBulletsPerExp (layoutHints c) = (if c then 2 else 4)"
    "hintMaxEducationItems (layoutHints c) = (if c then 2 else 6)"
    "truncateCharPerLine (layoutHints c) = (if c then 120 else 220)"
    by (simp_all add: layoutHints_def)
  have m0: "(min (length xs) (if c then 3 else 6) = 0) = (xs = [])" for xs :: "ExperienceItem list"
    by (cases c) (auto simp: min_def)
  have ls: "listOrEmpty (Some xs) = xs" for xs :: "jsstring list"
    by (simp add: listOrEmpty_def)
  have tr: "truthy (Some (orEmpty s)) = truthy s" for s
    by (simp add: truthy_def orEmpty_def split: option.splits)
  show ?thesis
    unfolding preprocessResume_def
    apply (simp only: option.case sum.case Let_def h n v ee t1 c[symmetric] lh tr)
    apply (simp add: extraOf_def nonEmpty_def[abs_def] uniqStrings_def m0 ls
             cong: if_cong split del: if_split)
    done
qed


subsection \<open>Evaluation on concrete records, and the fields of the result\<close>

lemmas eval_input =
  wellFormed_def compactModeOf_def estimateContentHeight_def totalChars_def
  validateResumeData_def joinExpText_def joinEduText_def joinSimple_def expText_def volText_def
  certText_def descArray_def descLength_def descOk_def listOrEmpty_def lengthOr0_def
  orEmpty_def truthy_def interp_def js_def emptyResume_def mkExp_def space_def

lemma out_eq:
  assumes "wellFormed x"
  shows "\<not> isl (preprocessResume (Some x))"
    and "outList experience (preprocessResume (Some x)) =
         map (trimBullets (if compactModeOf x then 2 else 4) (if compactModeOf x then 120 else 220))
           (take (if compactModeOf x then 3 else 6) (filter keepExp (listOrEmpty (experience x))))"
    and "outList education (preprocessResume (Some x)) =
         take (if compactModeOf x then 2 else 6) (filter keepEdu (listOrEmpty (education x)))"
    and "outList certifications (preprocessResume (Some x)) =
         take 20 (map normCert (listOrEmpty (certifications x)))"
    and "outList achivements (preprocessResume (Some x)) =
         take (if compactModeOf x then 6 else 12)
           (filter nonEmpty (uniq (map trim (listOrEmpty (achivements x)) @ extraOf (compactModeOf x) x)))"
    and "outList skills (preprocessResume (Some x)) =
         take (if compactModeOf x then 12 else 30) (uniqStrings (skills x))"
    and "outList softSkills (preprocessResume (Some x)) =
         take (if compactModeOf x then 6 else 12) (uniqStrings (softSkills x))"
    and "outList languages (preprocessResume (Some x)) =
         take (if compactModeOf x then 3 else 8) (uniqStrings (languages x))"
    and "outList volunteer (preprocessResume (Some x)) = listOrEmpty (volunteer x)"
    and "outList interests (preprocessResume (Some x)) = listOrEmpty (interests x)"
    and "outHints (preprocessResume (Some x)) = Some (layoutHints (compactModeOf x))"
    and "outWarnings (preprocessResume (Some x)) =
         (if \<not> truthy (name x) \<and> \<not> truthy (title x) \<and> \<not> truthy (summary x) \<and>
             filter keepExp (listOrEmpty (experience x)) = [] then [emptyWarning] else [])"
  by (simp_all only: preprocess_eq[OF assms] outList_def outWarnings_def outHints_def sum.case prod.case
        sum.disc ResumeData.select_convs ProcessedResume.select_convs listOrEmpty_def option.case not_False_eq_True)

lemma keepExp_trimBullets: "keepExp (trimBullets b n e) = keepExp e"
  by (simp add: keepExp_def trimBullets_def)


lemma uniqStrings_props:
  "distinct (uniqStrings a)"
  "list_all (\<lambda>s. trimmed s \<and> s \<noteq> []) (uniqStrings a)"
  "set (uniqStrings a) = trim ` set (listOrEmpty a) - {[]}"
  by (auto simp: uniqStrings_def distinct_uniq set_uniq list_all_iff trimmed_trim)

lemma list_all_take: "list_all P xs \<Longrightarrow> list_all P (take n xs)"
  by (auto simp: list_all_iff dest: in_set_takeD)

lemma normCert_trimmed:
  "list_all (\<lambda>k. trimmed (orEmpty (cert_name k)) \<and> trimmed (orEmpty (cert_year k))) (map normCert cs)"
  by (simp add: list_all_iff normCert_def orEmpty_def trimmed_trim)


lemma trim_mark: "\<not> is_ws m \<Longrightarrow> trim (a @ m # b) = trimStart a @ m # trimEnd b"
  by (simp add: trim_def trimStart_def trimEnd_def dropWhile_append3)

lemma prefix_dropWhile_append: "prefix (dropWhile P xs) (dropWhile P (xs @ ys))"
  by (induction xs) auto

lemma prefix_trimStart: "prefix (trimStart a) (trimStart (a @ b))"
  by (simp add: trimStart_def prefix_dropWhile_append)

lemma suffix_trimEnd: "suffix (trimEnd b) (trimEnd (a @ b))"
proof -
  have "prefix (dropWhile is_ws (rev b)) (dropWhile is_ws (rev b @ rev a))"
    by (rule prefix_dropWhile_append)
  then show ?thesis
    by (simp add: trimEnd_def suffix_to_prefix)
qed

lemma title_form:
  "trim (r @ [space, emdash, space] @ c) = trimStart (r @ [space]) @ emdash # trimEnd (space # c)"
  using trim_mark[of emdash "r @ [space]" "space # c"] by (simp add: is_ws_marks)

lemma title_contains:
  "sublist (trimStart r) (trim (r @ [space, emdash, space] @ c))"
  "sublist (trimEnd c) (trim (r @ [space, emdash, space] @ c))"
  "trim (r @ [space, emdash, space] @ c) \<noteq> []"
proof -
  let ?t = "trim (r @ [space, emdash, space] @ c)"
  have "prefix (trimStart r) (trimStart (r @ [space]))" by (rule prefix_trimStart)
  then have "prefix (trimStart r) ?t"
    unfolding title_form by (metis prefix_prefix)
  then show "sublist (trimStart r) ?t" by (rule prefix_imp_sublist)
  have "suffix (trimEnd c) (trimEnd ([space] @ c))" by (rule suffix_trimEnd)
  then have "suffix (trimEnd c) ?t"
    unfolding title_form by (metis append_Cons append_Nil suffix_append suffix_Cons)
  then show "sublist (trimEnd c) ?t" by (rule suffix_imp_sublist)
  show "?t \<noteq> []" unfolding title_form by simp
qed

lemma join_Cons_prefix: "prefix x (join sep (x # ys))"
  by (cases ys) simp_all

lemma entryText_contains:
  "sublist (trimStart (orEmpty (role e))) (entryText b e ds)"
  "sublist (trimEnd (orEmpty (company e))) (entryText b e ds)"
  "entryText b e ds \<noteq> []"
proof -
  let ?t = "trim (orEmpty (role e) @ [space, emdash, space] @ orEmpty (company e))"
  have ne: "?t \<noteq> []" by (rule title_contains(3))
  have p: "prefix ?t (entryText b e ds)"
    using ne by (simp add: entryText_def join_Cons_prefix)
  then have s: "sublist ?t (entryText b e ds)" by (rule prefix_imp_sublist)
  show "sublist (trimStart (orEmpty (role e))) (entryText b e ds)"
    using title_contains(1) s by (rule sublist_order.order_trans)
  show "sublist (trimEnd (orEmpty (company e))) (entryText b e ds)"
    using title_contains(2) s by (rule sublist_order.order_trans)
  show "entryText b e ds \<noteq> []" using p ne by auto
qed

lemma eduEntry_nonempty: "eduEntry ed \<noteq> []"
proof -
  have "eduEntry ed = trim (orEmpty (degree ed) @ [space, emdash, space] @
          (orEmpty (school ed) @ [space] @ trim (orEmpty (year ed))))"
    by (simp add: eduEntry_def)
  then show ?thesis by (simp only: title_contains(3) not_False_eq_True)
qed

lemma in_take_or_full: "x \<in> set xs \<Longrightarrow> x \<in> set (take n xs) \<or> length (take n xs) = n"
  by (cases "length xs \<le> n") auto

lemmas eval_record =
  emptyResume_def mkExp_def mkEdu_def listOrEmpty_def keepExp_def keepEdu_def truthy_def
  orEmpty_def bullets_def

lemmas eval_string = js_def trim_def is_ws_def space_def emdash_def bullet_def ellipsis_def


lemma description_trimBullets:
  "bullets (description (trimBullets b n e)) =
     map (\<lambda>d. truncateLine n (trim d)) (take b (bullets (description e)))"
  by (cases "description e") (simp_all add: trimBullets_def bullets_def)

lemma trim_snoc_ws: "trimmed s \<Longrightarrow> s \<noteq> [] \<Longrightarrow> is_ws c \<Longrightarrow> trim (s @ [c]) = s"
  by (simp add: trim_def trimmed_def dropWhile_hd hd_rev)

lemma not_ws_letterA: "\<not> is_ws letterA"
  by (simp add: is_ws_def letterA_def)


lemma descArray_bad: "\<not> descOk d \<Longrightarrow> descArray d = Inl TypeError"
  by (cases d) (simp_all add: descOk_def descArray_def)

lemma mapE_fail:
  assumes "\<And>x. x \<in> set xs \<Longrightarrow> \<not> ok x \<Longrightarrow> f x = Inl TypeError"
      and "\<And>x. x \<in> set xs \<Longrightarrow> ok x \<Longrightarrow> \<exists>y. f x = Inr y"
      and "\<not> list_all ok xs"
  shows "mapE f xs = Inl TypeError"
  using assms
proof (induction xs)
  case Nil
  then show ?case by simp
next
  case (Cons a xs)
  show ?case
  proof (cases "ok a")
    case False
    then show ?thesis using Cons.prems(1)[of a] by simp
  next
    case True
    then obtain y where y: "f a = Inr y" using Cons.prems(2)[of a] by auto
    have "\<not> list_all ok xs" using Cons.prems(3) True by simp
    then have "mapE f xs = Inl TypeError"
      using Cons.IH Cons.prems(1,2) by simp
    then show ?thesis by (simp add: y)
  qed
qed

lemma preprocess_throws:
  assumes "\<not> wellFormed x"
  shows "preprocessResume (Some x) = Inl TypeError"
proof -
  obtain h where h: "estimateContentHeight (validateResumeData x) = Inr h"
    using estimate_validated by blast
  have v: "experience (validateResumeData x) = Some (listOrEmpty (experience x))"
    "volunteer (validateResumeData x) = Some (listOrEmpty (volunteer x))"
    by (simp_all add: validateResumeData_def)
  have "totalChars (validateResumeData x) = Inl TypeError"
  proof (cases "list_all (\<lambda>e. descOk (description e)) (listOrEmpty (experience x))")
    case False
    have "mapE expText (listOrEmpty (experience x)) = Inl TypeError"
      by (rule mapE_fail[where ok = "\<lambda>e. descOk (description e)"])
         (simp_all add: expText_def descArray_bad descArray_ok False)
    then show ?thesis
      by (simp add: totalChars_def joinExpText_def v listOrEmpty_def)
  next
    case True
    then have bad: "\<not> list_all (\<lambda>v. descOk (vol_description v)) (listOrEmpty (volunteer x))"
      using assms by (simp add: wellFormed_def)
    have "\<exists>ts. mapE expText (listOrEmpty (experience x)) = Inr ts"
      using True by (intro mapE_ex) (auto simp: list_all_iff expText_ok)
    moreover have "mapE volText (listOrEmpty (volunteer x)) = Inl TypeError"
      by (rule mapE_fail[where ok = "\<lambda>v. descOk (vol_description v)"])
         (simp_all add: volText_def descArray_bad descArray_ok bad)
    ultimately show ?thesis
      by (auto simp: totalChars_def joinExpText_def v listOrEmpty_def)
  qed
  then show ?thesis
    by (simp add: preprocessResume_def h Let_def)
qed

lemma preprocess_returns_iff: "isl (preprocessResume (Some x)) = (\<not> wellFormed x)"
  using preprocess_throws[of x] out_eq(1)[of x] by (cases "wellFormed x") auto


lemma join_trimmed:
  "ps \<noteq> [] \<Longrightarrow> list_all (\<lambda>p. p \<noteq> [] \<and> trimmed p) ps \<Longrightarrow>
     join sep ps \<noteq> [] \<and> trimmed (join sep ps)"
proof (induction sep ps rule: join.induct)
  case (1 sep)
  then show ?case by simp
next
  case (2 sep x)
  then show ?case by simp
next
  case (3 sep x y ys)
  then have ih: "join sep (y # ys) \<noteq> []" "trimmed (join sep (y # ys))"
    by simp_all
  have x: "x \<noteq> []" "trimmed x" using 3 by simp_all
  show ?case
    using ih x by (auto simp: trimmed_def hd_append)
qed

lemma trimmed_entryText: "trimmed (entryText b e ds)"
proof -
  let ?t = "trim (orEmpty (role e) @ [space, emdash, space] @ orEmpty (company e))"
  let ?ps = "filter (\<lambda>s. s \<noteq> []) (?t # map trim (take b ds))"
  have "?ps \<noteq> []"
    using title_contains(3)[of "orEmpty (role e)" "orEmpty (company e)"] by simp
  moreover have "list_all (\<lambda>p. p \<noteq> [] \<and> trimmed p) ?ps"
    by (auto simp: list_all_iff trimmed_trim)
  ultimately have "trimmed (join [space, bullet, space] ?ps)"
    using join_trimmed by blast
  then show ?thesis
    unfolding entryText_def .
qed

lemma trimmed_extraOf: "list_all trimmed (extraOf c x)"
  by (auto simp: extraOf_def list_all_iff trimmed_entryText eduEntry_def trimmed_trim)

lemma trimBullets_idem:
  assumes "b \<le> b'" "n \<le> n'" "0 < n"
  shows "trimBullets b' n' (trimBullets b n e) = trimBullets b n e"
proof -
  let ?ds = "map (truncateLine n) (map trim (take b (bullets (description e))))"
  have d: "description (trimBullets b n e) = DescArray ?ds"
    by (cases "description e") (simp_all add: trimBullets_def bullets_def)
  have len: "length ?ds \<le> b'" using assms(1) by simp
  have each: "truncateLine n' (trim d) = d" if "d \<in> set ?ds" for d
  proof -
    from that obtain s where s: "d = truncateLine n (trim s)" by auto
    have "trimmed d" unfolding s by (rule trimmed_truncateLine) (rule trimmed_trim)
    then have "trim d = d" by (rule trim_trimmed)
    moreover have "length d \<le> n'"
      using truncateLine_le[OF assms(3), of "trim s"] assms(2) s by simp
    ultimately show ?thesis by (simp add: truncateLine_def)
  qed
  have "map (truncateLine n') (map trim (take b' ?ds)) = ?ds"
    using len each by (simp add: map_idI)
  then show ?thesis
    unfolding trimBullets_def[of b' n'] d by (simp add: d)
qed

lemma map_trimBullets_idem:
  assumes "b \<le> b'" "n \<le> n'" "0 < n"
  shows "map (trimBullets b' n') (map (trimBullets b n) zs) = map (trimBullets b n) zs"
  by (simp add: trimBullets_idem[OF assms])

lemma normCert_idem: "normCert (normCert k) = normCert k"
  by (simp add: normCert_def orEmpty_def trim_idem)

lemma uniqStrings_idem:
  assumes "k \<le> k'"
  shows "take k' (uniqStrings (Some (take k (uniqStrings a)))) = take k (uniqStrings a)"
proof -
  let ?u = "take k (uniqStrings a)"
  have tr: "map trim ?u = ?u"
    using uniqStrings_props(2)[of a]
    by (intro map_idI) (auto simp: list_all_iff trim_trimmed dest: in_set_takeD)
  have ne: "filter (\<lambda>s. s \<noteq> []) ?u = ?u"
    using uniqStrings_props(2)[of a]
    by (auto simp: list_all_iff filter_id_conv dest: in_set_takeD)
  have "uniqStrings (Some ?u) = ?u"
    by (simp add: uniqStrings_def[of "Some ?u"] listOrEmpty_def tr ne uniq_distinct uniqStrings_props(1))
  then show ?thesis using assms by simp
qed

lemma result_fields:
  assumes wf: "wellFormed x" and run: "preprocessResume (Some x) = Inr (y, w)"
  defines "c \<equiv> compactModeOf x"
  shows "listOrEmpty (experience y) =
           map (trimBullets (if c then 2 else 4) (if c then 120 else 220))
             (take (if c then 3 else 6) (filter keepExp (listOrEmpty (experience x))))"
    and "listOrEmpty (education y) =
           take (if c then 2 else 6) (filter keepEdu (listOrEmpty (education x)))"
    and "listOrEmpty (certifications y) = take 20 (map normCert (listOrEmpty (certifications x)))"
    and "listOrEmpty (achivements y) =
           take (if c then 6 else 12)
             (filter nonEmpty (uniq (map trim (listOrEmpty (achivements x)) @ extraOf c x)))"
    and "listOrEmpty (skills y) = take (if c then 12 else 30) (uniqStrings (skills x))"
    and "listOrEmpty (softSkills y) = take (if c then 6 else 12) (uniqStrings (softSkills x))"
    and "listOrEmpty (languages y) = take (if c then 3 else 8) (uniqStrings (languages x))"
    and "listOrEmpty (volunteer y) = listOrEmpty (volunteer x)"
    and "listOrEmpty (interests y) = listOrEmpty (interests x)"
proof -
  have o: "outList f (preprocessResume (Some x)) = listOrEmpty (f y)" for f :: "ProcessedResume \<Rightarrow> 'b list option"
    by (simp add: run outList_def)
  show "listOrEmpty (experience y) =
           map (trimBullets (if c then 2 else 4) (if c then 120 else 220))
             (take (if c then 3 else 6) (filter keepExp (listOrEmpty (experience x))))"
    using out_eq(2)[OF wf] by (simp only: o c_def)
  show "listOrEmpty (education y) =
           take (if c then 2 else 6) (filter keepEdu (listOrEmpty (education x)))"
    using out_eq(3)[OF wf] by (simp only: o c_def)
  show "listOrEmpty (certifications y) = take 20 (map normCert (listOrEmpty (certifications x)))"
    using out_eq(4)[OF wf] by (simp only: o c_def)
  show "listOrEmpty (achivements y) =
           take (if c then 6 else 12)
             (filter nonEmpty (uniq (map trim (listOrEmpty (achivements x)) @ extraOf c x)))"
    using out_eq(5)[OF wf] by (simp only: o c_def)
  show "listOrEmpty (skills y) = take (if c then 12 else 30) (uniqStrings (skills x))"
    using out_eq(6)[OF wf] by (simp only: o c_def)
  show "listOrEmpty (softSkills y) = take (if c then 6 else 12) (uniqStrings (softSkills x))"
    using out_eq(7)[OF wf] by (simp only: o c_def)
  show "listOrEmpty (languages y) = take (if c then 3 else 8) (uniqStrings (languages x))"
    using out_eq(8)[OF wf] by (simp only: o c_def)
  show "listOrEmpty (volunteer y) = listOrEmpty (volunteer x)"
    using out_eq(9)[OF wf] by (simp only: o c_def)
  show "listOrEmpty (interests y) = listOrEmpty (interests x)"
    using out_eq(10)[OF wf] by (simp only: o c_def)
qed

lemma wellFormed_result:
  assumes "wellFormed x" "preprocessResume (Some x) = Inr (y, w)"
  shows "wellFormed y"
proof -
  note y = result_fields(1,8)[OF assms]
  have "descOk (description (trimBullets b n e))" for b n e
    by (simp add: trimBullets_def descOk_def)
  then show ?thesis
    using assms(1) by (simp add: wellFormed_def y list_all_iff)
qed

lemma uniqStrings_listOrEmpty: "uniqStrings a = uniqStrings (Some (listOrEmpty a))"
  by (simp add: uniqStrings_def listOrEmpty_def)

lemma achievements_idem:
  fixes ex :: "jsstring list"
  assumes "list_all trimmed extra" "cap \<le> cap'"
  defines "A \<equiv> take cap (filter nonEmpty (uniq (map trim ex @ extra)))"
  shows "take cap' (filter nonEmpty (uniq (map trim A @ []))) = A"
proof -
  have sub: "set A \<subseteq> set (map trim ex) \<union> set extra"
    unfolding A_def by (auto simp: set_uniq dest: in_set_takeD)
  have "trimmed a" if "a \<in> set A" for a
    using that sub assms(1) by (auto simp: list_all_iff trimmed_trim)
  then have tr: "map trim A = A"
    by (intro map_idI) (simp add: trim_trimmed)
  have di: "distinct A" unfolding A_def by (simp add: distinct_uniq)
  have ne: "filter nonEmpty A = A"
    unfolding A_def by (auto simp: filter_id_conv dest: in_set_takeD)
  have le: "length A \<le> cap'" using assms(2) unfolding A_def by simp
  show ?thesis
    by (simp add: tr uniq_distinct[OF di] ne le)
qed

lemma validate_idem: "validateResumeData (validateResumeData x) = validateResumeData x"
  by (simp add: validateResumeData_def contactField_def orEmpty_def listOrEmpty_def)

lemma preprocess_validate:
  "preprocessResume (Some (validateResumeData x)) = preprocessResume (Some x)"
  by (simp add: preprocessResume_def validate_idem)

lemma result_scalars:
  assumes wf: "wellFormed x" and run: "preprocessResume (Some x) = Inr (y, w)"
  shows "name y = Some (orEmpty (name x))" "title y = Some (orEmpty (title x))"
    "photoUrl y = Some (orEmpty (photoUrl x))" "summary y = Some (orEmpty (summary x))"
    "contact y = contact (validateResumeData x)"
proof -
  have y: "y = fst (projr (preprocessResume (Some x)))"
    by (simp add: run)
  show "name y = Some (orEmpty (name x))" "title y = Some (orEmpty (title x))"
    "photoUrl y = Some (orEmpty (photoUrl x))" "summary y = Some (orEmpty (summary x))"
    "contact y = contact (validateResumeData x)"
    unfolding y preprocess_eq[OF wf] by simp_all
qed

lemma sevenJobs_validated:
  assumes nc: "\<not> compactModeOf (sevenJobsOf n)"
      and run: "preprocessResume (Some (sevenJobsOf n)) = Inr (y, w)"
  shows "validateResumeData y = sevenJobsProcessed n"
proof -
  have wf: "wellFormed (sevenJobsOf n)"
    by (simp add: sevenJobsOf_def eval_input)
  note f = result_fields[OF wf run] result_scalars[OF wf run]
  have e: "listOrEmpty (experience y) =
      map (\<lambda>r. mkExp r ''Acme'' [''Built X'']) [''Dev1'', ''Dev2'', ''Dev3'', ''Dev4'', ''Dev5'', ''Dev6'']"
    unfolding f using nc
    by (simp add: sevenJobsOf_def eval_record trimBullets_def truncateLine_def eval_string)
  have a: "listOrEmpty (achivements y) =
      [js ''Dev7'' @ [space, emdash, space] @ js ''Acme'' @ [space, bullet, space] @ js ''Built X'']"
    unfolding f using nc
    by (simp add: sevenJobsOf_def extraOf_def entryText_def nonEmpty_def eval_record eval_string)
  have o: "listOrEmpty (education y) = []" "listOrEmpty (certifications y) = []"
    "listOrEmpty (skills y) = []" "listOrEmpty (softSkills y) = []"
    "listOrEmpty (languages y) = []" "listOrEmpty (volunteer y) = []"
    "listOrEmpty (interests y) = []"
    unfolding f
    by (simp_all add: sevenJobsOf_def emptyResume_def listOrEmpty_def uniqStrings_def)
  have s: "name y = Some n" "title y = Some []" "photoUrl y = Some []" "summary y = Some []"
    "contact y = Some \<lparr> phone = Some [], email = Some [], address = Some [], linkedin = Some [] \<rparr>"
    unfolding f
    by (simp_all add: sevenJobsOf_def emptyResume_def orEmpty_def validateResumeData_def contactField_def)
  show ?thesis
    unfolding validateResumeData_def[of y] sevenJobsProcessed_def
    by (simp only: e a o s) (simp add: orEmpty_def contactField_def)
qed

lemma sevenJobs_first_run:
  assumes nc: "\<not> compactModeOf (sevenJobsOf n)"
  shows "\<not> isl (preprocessResume (Some (sevenJobsOf n)))"
    and "rerun (sevenJobsOf n) = preprocessResume (Some (sevenJobsProcessed n))"
    and "length (outList experience (preprocessResume (Some (sevenJobsOf n)))) = 6"
    and "length (outList achivements (preprocessResume (Some (sevenJobsOf n)))) = 1"
proof -
  have wf: "wellFormed (sevenJobsOf n)"
    by (simp add: sevenJobsOf_def eval_input)
  show ok: "\<not> isl (preprocessResume (Some (sevenJobsOf n)))"
    by (rule out_eq(1)[OF wf])
  then obtain y w where run: "preprocessResume (Some (sevenJobsOf n)) = Inr (y, w)"
    by (cases "preprocessResume (Some (sevenJobsOf n))") auto
  note v = sevenJobs_validated[OF nc run]
  have l: "listOrEmpty (experience y) = listOrEmpty (experience (validateResumeData y))"
    "listOrEmpty (achivements y) = listOrEmpty (achivements (validateResumeData y))"
    by (simp_all add: validateResumeData_def listOrEmpty_def)
  have "preprocessResume (Some y) = preprocessResume (Some (sevenJobsProcessed n))"
    using preprocess_validate[of y] v by simp
  then show "rerun (sevenJobsOf n) = preprocessResume (Some (sevenJobsProcessed n))"
    by (simp add: rerun_def run)
  show "length (outList experience (preprocessResume (Some (sevenJobsOf n)))) = 6"
    unfolding run outList_def sum.case prod.case l v
    by (simp add: sevenJobsProcessed_def listOrEmpty_def)
  show "length (outList achivements (preprocessResume (Some (sevenJobsOf n)))) = 1"
    unfolding run outList_def sum.case prod.case l v
    by (simp add: sevenJobsProcessed_def listOrEmpty_def)
qed

lemma compactModeOf_validate: "compactModeOf (validateResumeData x) = compactModeOf x"
  unfolding compactModeOf_def validate_idem by (rule refl)


subsection \<open>The store: earlier cells are kept, new cells refer to new cells\<close>





lemma sealed_snoc:
  assumes "sealed n h" "\<forall>a \<in> set (cellRefs c). n \<le> a \<and> a < length h"
  shows "sealed n (h @ [c])"
  unfolding sealed_def
proof (intro allI impI ballI)
  fix i a
  assume i: "n \<le> i" "i < length (h @ [c])" and a: "a \<in> set (cellRefs ((h @ [c]) ! i))"
  show "n \<le> a \<and> a < length (h @ [c])"
  proof (cases "i < length h")
    case True
    then have m: "a \<in> set (cellRefs (h ! i))" using a by (simp add: nth_append)
    have "\<forall>a \<in> set (cellRefs (h ! i)). n \<le> a \<and> a < length h"
      using assms(1) i(1) True unfolding sealed_def by blast
    then have "n \<le> a \<and> a < length h" using m by blast
    then show ?thesis by simp
  next
    case False
    then have "i = length h" using i(2) by simp
    then have "a \<in> set (cellRefs c)" using a by simp
    then have "n \<le> a \<and> a < length h" using assms(2) by blast
    then show ?thesis by simp
  qed
qed

lemma step_alloc:
  assumes "alloc h c = (v, h')" "n \<le> length h \<Longrightarrow> sealed n h \<Longrightarrow> refsIn n h (cellRefs c)"
  shows "step n h h' (valRefs v)"
proof -
  have h': "h' = h @ [c]" and v: "v = HRef (length h)"
    using assms(1) by (auto simp: alloc_def)
  show ?thesis
    unfolding step_def h' v
    using assms(2) by (auto simp: refsIn_def valRefs_def intro!: sealed_snoc)
qed



lemma step_weaken: "step n h h' rs \<Longrightarrow> set qs \<subseteq> set rs \<Longrightarrow> step n h h' qs"
  unfolding step_def refsIn_def by blast










































section \<open>Properties of the layout optimizer\<close>

text \<open>
  C1. For every resume record and every template kind, each font size and spacing value
  of the configuration returned by \<open>optimizeLayout\<close> lies between the floor applied in
  the overflow branch and the ceiling applied in the sparse branch: name 26..40, title
  15..22, section title 13..17, body 11..14, small 10..11, section spacing 16..36, item
  spacing 10..22, line height 1.3..1.6, container padding 24..40, and the sidebar width
  (modern only) 180..250.
\<close>

theorem optimizeLayout_clamped:
  fixes data :: "'a ResumeData_scheme"
  shows "(let c = optimizeLayout data t in
      26 \<le> nameFontSize c \<and> nameFontSize c \<le> 40 \<and>
      15 \<le> titleFontSize c \<and> titleFontSize c \<le> 22 \<and>
      13 \<le> sectionTitleFontSize c \<and> sectionTitleFontSize c \<le> 17 \<and>
      11 \<le> bodyFontSize c \<and> bodyFontSize c \<le> 14 \<and>
      10 \<le> smallFontSize c \<and> smallFontSize c \<le> 11 \<and>
      16 \<le> sectionSpacing c \<and> sectionSpacing c \<le> 36 \<and>
      10 \<le> itemSpacing c \<and> itemSpacing c \<le> 22 \<and>
      13 / 10 \<le> lineHeight c \<and> lineHeight c \<le> 16 / 10 \<and>
      24 \<le> containerPadding c \<and> containerPadding c \<le> 40 \<and>
      sidebarInRange t (sidebarWidth c))"
  by (cases t; cases "contentDensity (analyzeContent data)")
     (simp_all add: optimizeLayout_def baseConfigs_def adjustSidebar_def Let_def)

text \<open>
  C7. \<open>analyzeContent\<close> classifies the estimated height \<open>h\<close> against the usable page
  height 1059: overflow exactly when \<open>h > 1164.9\<close>, dense exactly when
  \<open>900.15 < h \<le> 1164.9\<close>, sparse exactly when \<open>h < 635.4\<close>, normal otherwise; and a
  height equal to 85% of the usable height is classified normal.
\<close>

theorem analyzeContent_density:
  fixes data :: "'a ResumeData_scheme"
  shows "(let m = analyzeContent data; h = of_nat (estimatedHeight m) in
      contentDensity m = classifyDensity h \<and>
      (contentDensity m = Overflow) = (h > 1059 * (110 / 100)) \<and>
      (contentDensity m = Dense) = (h > 1059 * (85 / 100) \<and> h \<le> 1059 * (110 / 100)) \<and>
      (contentDensity m = Sparse) = (h < 1059 * (60 / 100)) \<and>
      (contentDensity m = Normal) = (1059 * (60 / 100) \<le> h \<and> h \<le> 1059 * (85 / 100))) \<and>
    classifyDensity (1059 * (85 / 100)) = Normal \<and>
    classifyDensity (1059 * (110 / 100)) = Dense \<and>
    classifyDensity (1059 * (60 / 100)) = Normal"
  by (simp add: analyzeContent_def classifyDensity_def usableHeight_def Let_def)

section \<open>Properties of the preprocessor\<close>

text \<open>
  C10. On every well-formed input \<open>preprocessResume\<close> returns, and before the caps are
  applied it drops each experience entry with neither role nor company and each
  education entry with neither degree nor school: the output lists are the first
  \<open>cap\<close> kept entries. On \<open>blankForm\<close>, whose single experience entry is blank, the
  output experience list is empty although the input has one entry, the cap is 6 and
  nothing is relocated to the achievements.
\<close>

theorem entries_without_heading_dropped:
  assumes "wellFormed x"
  shows "(let r = preprocessResume (Some x);
              keptExp = filter keepExp (listOrEmpty (experience x));
              keptEdu = filter keepEdu (listOrEmpty (education x));
              maxE = (if compactModeOf x then 3 else 6);
              maxEd = (if compactModeOf x then 2 else 6)
          in \<not> isl r \<and>
             outList experience r =
               map (trimBullets (if compactModeOf x then 2 else 4)
                                (if compactModeOf x then 120 else 220)) (take maxE keptExp) \<and>
             map role (outList experience r) = map role (take maxE keptExp) \<and>
             map company (outList experience r) = map company (take maxE keptExp) \<and>
             outList education r = take maxEd keptEdu \<and>
             list_all keepExp (outList experience r) \<and>
             list_all keepEdu (outList education r) \<and>
             length (outList experience r) = min (length keptExp) maxE \<and>
             length (outList education r) = min (length keptEdu) maxEd) \<and>
         (let r0 = preprocessResume (Some blankForm) in
            \<not> isl r0 \<and> \<not> compactModeOf blankForm \<and>
            length (listOrEmpty (experience blankForm)) = 1 \<and>
            outList experience r0 = [] \<and> outList education r0 = [] \<and>
            outList achivements r0 = [])"
proof -
  have wf0: "wellFormed blankForm"
    by (simp add: blankForm_def eval_input)
  have c0: "\<not> compactModeOf blankForm"
    by (simp add: blankForm_def eval_input)
  have k0: "filter keepExp (listOrEmpty (experience blankForm)) = []"
    "filter keepEdu (listOrEmpty (education blankForm)) = []"
    "listOrEmpty (achivements blankForm) = []"
    "length (listOrEmpty (experience blankForm)) = 1"
    by (simp_all add: blankForm_def emptyResume_def listOrEmpty_def keepExp_def keepEdu_def truthy_def)
  have trb: "map role (map (trimBullets b n) es) = map role es"
    "map company (map (trimBullets b n) es) = map company es" for b n es
    by (simp_all add: trimBullets_def comp_def)
  have la: "list_all keepExp (map (trimBullets b n) (take k (filter keepExp es)))" for b n k es
    by (auto simp: list_all_iff keepExp_trimBullets dest: in_set_takeD)
  have lb: "list_all keepEdu (take k (filter keepEdu es))" for k es
    by (auto simp: list_all_iff dest: in_set_takeD)
  show ?thesis
    unfolding Let_def
    apply (simp only: out_eq[OF assms] out_eq[OF wf0] k0 trb la lb)
    apply (simp add: c0 extraOf_def k0 nonEmpty_def)
    done
qed

theorem entries_without_heading_dropped_witness:
  "wellFormed blankForm \<and>
   outList experience (preprocessResume (Some blankForm)) = [] \<and>
   length (outList experience (preprocessResume (Some blankForm))) <
     min (length (listOrEmpty (experience blankForm))) 6"
proof -
  have wf0: "wellFormed blankForm"
    by (simp add: blankForm_def eval_input)
  have e: "outList experience (preprocessResume (Some blankForm)) = []"
    using entries_without_heading_dropped[OF wf0] unfolding Let_def by blast
  have "length (listOrEmpty (experience blankForm)) = 1"
    by (simp add: blankForm_def emptyResume_def listOrEmpty_def)
  then show ?thesis
    using wf0 e by simp
qed

text \<open>
  C5 (amended). On every well-formed input the skills, soft-skills and languages lists
  of the result are the trimmed, non-empty, distinct strings of the input in order of
  first occurrence (comparison is exact, so case matters), capped at 12/30, 6/12 and 3/8
  entries (compact/non-compact). The certifications have name and year trimmed and are
  capped at 20 entries in both modes; they are not de-duplicated.
\<close>

theorem lists_normalized:
  assumes "wellFormed x"
  shows "(let r = preprocessResume (Some x); c = compactModeOf x in
     \<not> isl r \<and>
     outList skills r = take (if c then 12 else 30) (uniqStrings (skills x)) \<and>
     outList softSkills r = take (if c then 6 else 12) (uniqStrings (softSkills x)) \<and>
     outList languages r = take (if c then 3 else 8) (uniqStrings (languages x)) \<and>
     outList certifications r = take 20 (map normCert (listOrEmpty (certifications x))) \<and>
     distinct (outList skills r) \<and> distinct (outList softSkills r) \<and>
     distinct (outList languages r) \<and>
     list_all (\<lambda>s. trimmed s \<and> s \<noteq> []) (outList skills r) \<and>
     list_all (\<lambda>s. trimmed s \<and> s \<noteq> []) (outList softSkills r) \<and>
     list_all (\<lambda>s. trimmed s \<and> s \<noteq> []) (outList languages r) \<and>
     list_all (\<lambda>k. trimmed (orEmpty (cert_name k)) \<and> trimmed (orEmpty (cert_year k)))
       (outList certifications r) \<and>
     length (outList skills r) \<le> (if c then 12 else 30) \<and>
     length (outList softSkills r) \<le> (if c then 6 else 12) \<and>
     length (outList languages r) \<le> (if c then 3 else 8) \<and>
     length (outList certifications r) \<le> 20) \<and>
   set (uniqStrings (skills x)) = trim ` set (listOrEmpty (skills x)) - {[]} \<and>
   set (uniqStrings (softSkills x)) = trim ` set (listOrEmpty (softSkills x)) - {[]} \<and>
   set (uniqStrings (languages x)) = trim ` set (listOrEmpty (languages x)) - {[]}"
  unfolding Let_def
  by (simp only: out_eq[OF assms] uniqStrings_props(3))
     (simp add: uniqStrings_props list_all_take normCert_trimmed)

text \<open>
  The skills \<open>" React", "React ", "react", "", "Go"\<close> come out as
  \<open>"React", "react", "Go"\<close>.
\<close>

theorem lists_normalized_witness:
  "wellFormed skillsExample \<and> \<not> compactModeOf skillsExample \<and>
   outList skills (preprocessResume (Some skillsExample)) = [js ''React'', js ''react'', js ''Go'']"
proof -
  have wf: "wellFormed skillsExample"
    by (simp add: skillsExample_def eval_input)
  have c: "\<not> compactModeOf skillsExample"
    by (simp add: skillsExample_def eval_input)
  have "outList skills (preprocessResume (Some skillsExample)) =
        take 30 (uniqStrings (skills skillsExample))"
    using lists_normalized[OF wf] c unfolding Let_def by simp
  also have "\<dots> = [js ''React'', js ''react'', js ''Go'']"
    by (simp add: skillsExample_def emptyResume_def uniqStrings_def listOrEmpty_def js_def
          trim_def is_ws_def)
  finally show ?thesis using wf c by simp
qed

text \<open>
  C5 as stated fails: two identical certifications are both kept.
\<close>

theorem certifications_keep_duplicates:
  "\<not> isl (preprocessResume (Some dupCerts)) \<and>
   outList certifications (preprocessResume (Some dupCerts)) =
     [\<lparr> cert_name = Some (js ''AWS''), cert_year = Some (js ''2020'') \<rparr>,
      \<lparr> cert_name = Some (js ''AWS''), cert_year = Some (js ''2020'') \<rparr>] \<and>
   \<not> distinct (outList certifications (preprocessResume (Some dupCerts)))"
proof -
  have wf: "wellFormed dupCerts"
    by (simp add: dupCerts_def eval_input)
  have "outList certifications (preprocessResume (Some dupCerts)) =
     [\<lparr> cert_name = Some (js ''AWS''), cert_year = Some (js ''2020'') \<rparr>,
      \<lparr> cert_name = Some (js ''AWS''), cert_year = Some (js ''2020'') \<rparr>]"
    by (simp add: out_eq[OF wf])
       (simp add: dupCerts_def emptyResume_def listOrEmpty_def normCert_def orEmpty_def js_def
          trim_def is_ws_def)
  then show ?thesis using out_eq(1)[OF wf] by simp
qed

text \<open>
  C6 (amended). On every well-formed input each pre-existing achievement is trimmed, the
  synthesized overflow strings are appended after them, and the combined list is
  de-duplicated by equality of the trimmed strings with the first occurrence kept (so
  the pre-existing ones keep their places and a synthesized string is added only when
  it is new); empty strings are removed, and the result is capped at 6 entries in
  compact mode and 12 otherwise.
\<close>

theorem achievements_merged:
  assumes "wellFormed x"
  shows "(let r = preprocessResume (Some x); c = compactModeOf x;
              existing = map trim (listOrEmpty (achivements x));
              extra = extraOf c x;
              cap = (if c then 6 else 12)
          in \<not> isl r \<and>
             outList achivements r = take cap (filter nonEmpty (uniq (existing @ extra))) \<and>
             uniq (existing @ extra) =
               uniq existing @ filter (\<lambda>s. s \<notin> set existing) (uniq extra) \<and>
             distinct (outList achivements r) \<and>
             list_all nonEmpty (outList achivements r) \<and>
             length (outList achivements r) \<le> cap)"
proof -
  have d: "distinct (take n (filter nonEmpty (uniq zs)))" for n and zs :: "jsstring list"
    by (simp add: distinct_uniq)
  have l: "list_all nonEmpty (take n (filter nonEmpty zs))" for n and zs :: "jsstring list"
    by (auto simp: list_all_iff dest: in_set_takeD)
  have u: "uniq (ys @ zs) = uniq ys @ filter (\<lambda>s. s \<notin> set ys) (uniq zs)"
    for ys zs :: "jsstring list"
    by (rule uniq_append)
  show ?thesis
    unfolding Let_def
    by (simp only: out_eq[OF assms] d l u[symmetric]) simp
qed

text \<open>
  The achievements \<open>"Led team", "Led team", "Shipped X"\<close> come out as
  \<open>"Led team", "Shipped X"\<close>; with eight jobs besides, the strings made from the
  seventh and eighth job follow them.
\<close>

theorem achievements_merged_witness:
  "wellFormed ledTeam \<and> \<not> compactModeOf ledTeam \<and>
   outList achivements (preprocessResume (Some ledTeam)) = [js ''Led team'', js ''Shipped X''] \<and>
   wellFormed eightJobsLedTeam \<and> \<not> compactModeOf eightJobsLedTeam \<and>
   outList achivements (preprocessResume (Some eightJobsLedTeam)) =
     [js ''Led team'', js ''Shipped X'',
      js ''Dev7'' @ [space, emdash, space] @ js ''Acme'' @ [space, bullet, space] @ js ''Built X'',
      js ''Dev8'' @ [space, emdash, space] @ js ''Acme'' @ [space, bullet, space] @ js ''Built X'']"
proof -
  have wf: "wellFormed ledTeam"
    by (simp add: ledTeam_def eval_input)
  have c: "\<not> compactModeOf ledTeam"
    by (simp add: ledTeam_def eval_input)
  have x: "extraOf False ledTeam = []"
    by (simp add: extraOf_def ledTeam_def emptyResume_def listOrEmpty_def)
  have "outList achivements (preprocessResume (Some ledTeam)) =
        take 12 (filter nonEmpty (uniq (map trim (listOrEmpty (achivements ledTeam)) @ extraOf False ledTeam)))"
    using achievements_merged[OF wf] c unfolding Let_def by simp
  also have "\<dots> = [js ''Led team'', js ''Shipped X'']"
    by (simp add: x) (simp add: ledTeam_def emptyResume_def listOrEmpty_def js_def trim_def is_ws_def nonEmpty_def)
  finally have a1: "outList achivements (preprocessResume (Some ledTeam)) =
      [js ''Led team'', js ''Shipped X'']" .
  have wf2: "wellFormed eightJobsLedTeam"
    by (simp add: eightJobsLedTeam_def eightJobs_def eval_input)
  have c2: "\<not> compactModeOf eightJobsLedTeam"
    by (simp add: eightJobsLedTeam_def eightJobs_def eval_input)
  have x2: "extraOf False eightJobsLedTeam =
     [js ''Dev7'' @ [space, emdash, space] @ js ''Acme'' @ [space, bullet, space] @ js ''Built X'',
      js ''Dev8'' @ [space, emdash, space] @ js ''Acme'' @ [space, bullet, space] @ js ''Built X'']"
    by (simp add: eightJobsLedTeam_def eightJobs_def extraOf_def entryText_def nonEmpty_def
          eval_record eval_string)
  have "outList achivements (preprocessResume (Some eightJobsLedTeam)) =
        take 12 (filter nonEmpty (uniq (map trim (listOrEmpty (achivements eightJobsLedTeam)) @
          extraOf False eightJobsLedTeam)))"
    using achievements_merged[OF wf2] c2 unfolding Let_def by simp
  also have "\<dots> = [js ''Led team'', js ''Shipped X'',
      js ''Dev7'' @ [space, emdash, space] @ js ''Acme'' @ [space, bullet, space] @ js ''Built X'',
      js ''Dev8'' @ [space, emdash, space] @ js ''Acme'' @ [space, bullet, space] @ js ''Built X'']"
    unfolding x2
    by (simp add: eightJobsLedTeam_def eightJobs_def emptyResume_def listOrEmpty_def nonEmpty_def
          eval_string)
  finally have a2: "outList achivements (preprocessResume (Some eightJobsLedTeam)) =
     [js ''Led team'', js ''Shipped X'',
      js ''Dev7'' @ [space, emdash, space] @ js ''Acme'' @ [space, bullet, space] @ js ''Built X'',
      js ''Dev8'' @ [space, emdash, space] @ js ''Acme'' @ [space, bullet, space] @ js ''Built X'']" .
  show ?thesis
    using wf c a1 wf2 c2 a2 by (intro conjI)
qed

text \<open>
  C6 as stated fails: the four achievements \<open>"Led team"\<close>, \<open>"Led team "\<close> (with a
  trailing space), \<open>""\<close> and \<open>"Shipped X"\<close> are pairwise different strings and fewer
  than the cap, yet only two come out: the second is merged with the first after
  trimming and the empty one is removed.
\<close>

theorem distinct_achievements_merged_by_trim:
  "wellFormed paddedAchievements \<and> \<not> compactModeOf paddedAchievements \<and>
   listOrEmpty (achivements paddedAchievements) =
     [js ''Led team'', js ''Led team '', [], js ''Shipped X''] \<and>
   distinct (listOrEmpty (achivements paddedAchievements)) \<and>
   outList achivements (preprocessResume (Some paddedAchievements)) =
     [js ''Led team'', js ''Shipped X'']"
proof -
  have wf: "wellFormed paddedAchievements"
    by (simp add: paddedAchievements_def eval_input)
  have c: "\<not> compactModeOf paddedAchievements"
    by (simp add: paddedAchievements_def eval_input)
  have i: "listOrEmpty (achivements paddedAchievements) =
     [js ''Led team'', js ''Led team '', [], js ''Shipped X'']"
    by (simp add: paddedAchievements_def emptyResume_def listOrEmpty_def)
  have d: "distinct (listOrEmpty (achivements paddedAchievements))"
    unfolding i by (simp add: js_def)
  have x: "extraOf False paddedAchievements = []"
    by (simp add: extraOf_def paddedAchievements_def emptyResume_def listOrEmpty_def)
  have a: "outList achivements (preprocessResume (Some paddedAchievements)) =
     [js ''Led team'', js ''Shipped X'']"
    by (simp add: out_eq(5)[OF wf] c x i) (simp add: nonEmpty_def eval_string)
  show ?thesis
    using wf c i d a by (intro conjI)
qed

text \<open>
  C2 (amended). On every well-formed input processed in non-compact mode the output
  experience list is the first 6 kept entries, so with 8 kept entries it has exactly 6
  and 2 are in excess. Each excess entry is turned into one string, \<open>entryText\<close>: the
  trimmed \<open>role, em dash, company\<close> followed by its first four trimmed bullets, joined
  by bullet marks. That string contains the role and the company (up to their outer
  whitespace), and it is among the output achievements unless the achievements are
  full at their cap of 12: the output achievements are the first 12 of the combined,
  de-duplicated list. Education entries beyond the sixth are turned into the
  trimmed \<open>degree, em dash, school, year\<close> string \<open>eduEntry\<close> under the same condition.
\<close>

theorem overflow_relocation:
  assumes wf: "wellFormed x" and nc: "\<not> compactModeOf x"
  shows "(let r = preprocessResume (Some x);
              keptExp = filter keepExp (listOrEmpty (experience x));
              keptEdu = filter keepEdu (listOrEmpty (education x));
              ach = outList achivements r
          in \<not> isl r \<and>
             outList experience r = map (trimBullets 4 220) (take 6 keptExp) \<and>
             outList education r = take 6 keptEdu \<and>
             ach = take 12 (filter nonEmpty
                     (uniq (map trim (listOrEmpty (achivements x)) @ extraOf False x))) \<and>
             (length keptExp = 8 \<longrightarrow>
                length (outList experience r) = 6 \<and> length (drop 6 keptExp) = 2) \<and>
             (\<forall>e \<in> set (drop 6 keptExp).
                sublist (trimStart (orEmpty (role e))) (entryText 4 e (bullets (description e))) \<and>
                sublist (trimEnd (orEmpty (company e))) (entryText 4 e (bullets (description e))) \<and>
                (entryText 4 e (bullets (description e)) \<in> set ach \<or> length ach = 12)) \<and>
             (\<forall>ed \<in> set (drop 6 keptEdu). eduEntry ed \<in> set ach \<or> length ach = 12))"
proof -
  let ?r = "preprocessResume (Some x)"
  let ?kx = "filter keepExp (listOrEmpty (experience x))"
  let ?ke = "filter keepEdu (listOrEmpty (education x))"
  let ?comb = "filter nonEmpty (uniq (map trim (listOrEmpty (achivements x)) @ extraOf False x))"
  have a: "outList achivements ?r = take 12 ?comb"
    using out_eq(5)[OF wf] nc by simp
  have m1: "entryText 4 e (bullets (description e)) \<in> set ?comb" if "e \<in> set (drop 6 ?kx)" for e
    using that by (auto simp: set_uniq extraOf_def nonEmpty_def entryText_contains(3))
  have m2: "eduEntry ed \<in> set ?comb" if "ed \<in> set (drop 6 ?ke)" for ed
    using that by (auto simp: set_uniq extraOf_def nonEmpty_def eduEntry_nonempty)
  have e: "outList experience ?r = map (trimBullets 4 220) (take 6 ?kx)"
    using out_eq(2)[OF wf] nc by simp
  have d: "outList education ?r = take 6 ?ke"
    using out_eq(3)[OF wf] nc by simp
  show ?thesis
    unfolding Let_def
    apply (intro conjI)
          apply (rule out_eq(1)[OF wf])
         apply (rule e)
        apply (rule d)
       apply (rule a)
      apply (simp add: e)
     apply (intro ballI conjI entryText_contains)
     apply (simp only: a)
     apply (rule in_take_or_full, erule m1)
    apply (intro ballI)
    apply (simp only: a)
    apply (rule in_take_or_full, erule m2)
    done
qed

text \<open>
  Eight jobs with one bullet each: six stay, the seventh and eighth become
  achievements. Seven degrees: six stay, the seventh becomes an achievement.
\<close>

theorem overflow_relocation_witness:
  "wellFormed eightJobs \<and> \<not> compactModeOf eightJobs \<and>
   length (filter keepExp (listOrEmpty (experience eightJobs))) = 8 \<and>
   length (outList experience (preprocessResume (Some eightJobs))) = 6 \<and>
   outList achivements (preprocessResume (Some eightJobs)) =
     [js ''Dev7'' @ [space, emdash, space] @ js ''Acme'' @ [space, bullet, space] @ js ''Built X'',
      js ''Dev8'' @ [space, emdash, space] @ js ''Acme'' @ [space, bullet, space] @ js ''Built X''] \<and>
   wellFormed sevenDegrees \<and> \<not> compactModeOf sevenDegrees \<and>
   length (outList education (preprocessResume (Some sevenDegrees))) = 6 \<and>
   outList achivements (preprocessResume (Some sevenDegrees)) =
     [js ''D7'' @ [space, emdash, space] @ js ''MIT 2001'']"
proof -
  have wf: "wellFormed eightJobs"
    by (simp add: eightJobs_def eval_input)
  have nc: "\<not> compactModeOf eightJobs"
    by (simp add: eightJobs_def eval_input)
  have k: "length (filter keepExp (listOrEmpty (experience eightJobs))) = 8"
    by (simp add: eightJobs_def eval_record js_def)
  have l: "length (outList experience (preprocessResume (Some eightJobs))) = 6"
    using overflow_relocation[OF wf nc] k unfolding Let_def by blast
  have a: "outList achivements (preprocessResume (Some eightJobs)) =
     [js ''Dev7'' @ [space, emdash, space] @ js ''Acme'' @ [space, bullet, space] @ js ''Built X'',
      js ''Dev8'' @ [space, emdash, space] @ js ''Acme'' @ [space, bullet, space] @ js ''Built X'']"
    by (simp add: out_eq(5)[OF wf] nc)
       (simp add: eightJobs_def extraOf_def entryText_def nonEmpty_def eval_record eval_string)
  have wf2: "wellFormed sevenDegrees"
    by (simp add: sevenDegrees_def eval_input)
  have nc2: "\<not> compactModeOf sevenDegrees"
    by (simp add: sevenDegrees_def eval_input mkEdu_def)
  have "outList education (preprocessResume (Some sevenDegrees)) =
        take 6 (filter keepEdu (listOrEmpty (education sevenDegrees)))"
    using overflow_relocation[OF wf2 nc2] unfolding Let_def by blast
  then have l2: "length (outList education (preprocessResume (Some sevenDegrees))) = 6"
    by (simp add: sevenDegrees_def eval_record js_def)
  have a2: "outList achivements (preprocessResume (Some sevenDegrees)) =
     [js ''D7'' @ [space, emdash, space] @ js ''MIT 2001'']"
    by (simp add: out_eq(5)[OF wf2] nc2)
       (simp add: sevenDegrees_def extraOf_def eduEntry_def nonEmpty_def eval_record eval_string)
  show ?thesis
    using wf nc k l a wf2 nc2 l2 a2 by (intro conjI)
qed

text \<open>
  C2 as stated fails: with eight jobs and twelve achievements already present (still
  non-compact), six jobs stay, but the strings made from the seventh and eighth job fall
  beyond the cap of 12 and appear nowhere in the result.
\<close>

theorem relocated_entry_lost_at_cap:
  "wellFormed eightJobsTwelveAwards \<and> \<not> compactModeOf eightJobsTwelveAwards \<and>
   length (filter keepExp (listOrEmpty (experience eightJobsTwelveAwards))) = 8 \<and>
   length (outList experience (preprocessResume (Some eightJobsTwelveAwards))) = 6 \<and>
   outList achivements (preprocessResume (Some eightJobsTwelveAwards)) =
     map js [''A01'', ''A02'', ''A03'', ''A04'', ''A05'', ''A06'',
             ''A07'', ''A08'', ''A09'', ''A10'', ''A11'', ''A12''] \<and>
   entryText 4 (mkExp ''Dev7'' ''Acme'' []) [] = js ''Dev7'' @ [space, emdash, space] @ js ''Acme'' \<and>
   js ''Dev7'' @ [space, emdash, space] @ js ''Acme''
     \<notin> set (outList achivements (preprocessResume (Some eightJobsTwelveAwards)))"
proof -
  have wf: "wellFormed eightJobsTwelveAwards"
    by (simp add: eightJobsTwelveAwards_def eval_input)
  have nc: "\<not> compactModeOf eightJobsTwelveAwards"
    by (simp add: eightJobsTwelveAwards_def eval_input)
  have k: "length (filter keepExp (listOrEmpty (experience eightJobsTwelveAwards))) = 8"
    by (simp add: eightJobsTwelveAwards_def eval_record js_def)
  have l: "length (outList experience (preprocessResume (Some eightJobsTwelveAwards))) = 6"
    by (simp add: out_eq(2)[OF wf] nc k)
  have a: "outList achivements (preprocessResume (Some eightJobsTwelveAwards)) =
     map js [''A01'', ''A02'', ''A03'', ''A04'', ''A05'', ''A06'',
             ''A07'', ''A08'', ''A09'', ''A10'', ''A11'', ''A12'']"
    by (simp add: out_eq(5)[OF wf] nc)
       (simp add: eightJobsTwelveAwards_def extraOf_def entryText_def nonEmpty_def
          eval_record eval_string)
  have t: "entryText 4 (mkExp ''Dev7'' ''Acme'' []) [] =
           js ''Dev7'' @ [space, emdash, space] @ js ''Acme''"
    by (simp add: entryText_def eval_record eval_string)
  have n: "js ''Dev7'' @ [space, emdash, space] @ js ''Acme''
     \<notin> set (outList achivements (preprocessResume (Some eightJobsTwelveAwards)))"
    by (simp add: a) (simp add: eval_string)
  show ?thesis
    using wf nc k l a t n by (intro conjI)
qed

text \<open>
  C4 (amended). On every well-formed input each kept bullet is first trimmed; a trimmed
  bullet longer than the line limit \<open>n\<close> (120 compact, 220 otherwise) becomes the trimmed
  first \<open>n - 1\<close> code units followed by the ellipsis, of length at most \<open>n\<close>, and of
  length exactly \<open>n\<close> when code unit \<open>n - 2\<close> is not whitespace; a trimmed bullet of
  length at most \<open>n\<close> is kept as it is. Every bullet of the result is within the limit.
\<close>

theorem bullets_truncated:
  assumes wf: "wellFormed x"
  shows "(let r = preprocessResume (Some x); c = compactModeOf x;
              n = (if c then 120 else 220);
              maxB = (if c then 2 else 4);
              maxE = (if c then 3 else 6)
          in \<not> isl r \<and>
             outHints r = Some (layoutHints c) \<and> truncateCharPerLine (layoutHints c) = n \<and>
             map (\<lambda>e. bullets (description e)) (outList experience r) =
               map (\<lambda>e. map (\<lambda>b. truncateLine n (trim b)) (take maxB (bullets (description e))))
                 (take maxE (filter keepExp (listOrEmpty (experience x)))) \<and>
             list_all (\<lambda>e. list_all (\<lambda>d. length d \<le> n) (bullets (description e)))
               (outList experience r)) \<and>
         (length d \<le> n \<longrightarrow> truncateLine n d = d) \<and>
         (n < length d \<longrightarrow> truncateLine n d = trim (take (n - 1) d) @ [ellipsis]) \<and>
         (n < length d \<and> 0 < n \<longrightarrow> length (truncateLine n d) \<le> n) \<and>
         (n < length d \<and> 2 \<le> n \<and> trimmed d \<and> \<not> is_ws (d ! (n - 2)) \<longrightarrow>
            truncateLine n d = take (n - 1) d @ [ellipsis] \<and> length (truncateLine n d) = n)"
proof -
  let ?c = "compactModeOf x"
  let ?n = "if ?c then 120 else 220 :: nat"
  have pos: "0 < ?n" by simp
  have la: "list_all (\<lambda>e. list_all (\<lambda>d. length d \<le> ?n) (bullets (description e)))
              (map (trimBullets b ?n) es)" for b es
    unfolding list_all_iff using truncateLine_le[OF pos]
    by (auto simp only: description_trimBullets set_map)
  have m: "map (\<lambda>e. bullets (description e)) (map (trimBullets b k) es) =
           map (\<lambda>e. map (\<lambda>d. truncateLine k (trim d)) (take b (bullets (description e)))) es" for b k es
    by (simp add: description_trimBullets comp_def)
  have ex: "truncateLine n d = take (n - 1) d @ [ellipsis] \<and> length (truncateLine n d) = n"
    if "n < length d" "2 \<le> n" "trimmed d" "\<not> is_ws (d ! (n - 2))"
    using truncateLine_exact[OF that(1,2,4,3)] that by simp
  have first: "(let r = preprocessResume (Some x); c = compactModeOf x;
              n = (if c then 120 else 220);
              maxB = (if c then 2 else 4);
              maxE = (if c then 3 else 6)
          in \<not> isl r \<and>
             outHints r = Some (layoutHints c) \<and> truncateCharPerLine (layoutHints c) = n \<and>
             map (\<lambda>e. bullets (description e)) (outList experience r) =
               map (\<lambda>e. map (\<lambda>b. truncateLine n (trim b)) (take maxB (bullets (description e))))
                 (take maxE (filter keepExp (listOrEmpty (experience x)))) \<and>
             list_all (\<lambda>e. list_all (\<lambda>d. length d \<le> n) (bullets (description e)))
               (outList experience r))"
    unfolding Let_def
    by (simp only: out_eq[OF wf] la m) (simp add: layoutHints_def)
  have p1: "length d \<le> n \<longrightarrow> truncateLine n d = d"
    by (simp add: truncateLine_def)
  have p2: "n < length d \<longrightarrow> truncateLine n d = trim (take (n - 1) d) @ [ellipsis]"
    by (simp add: truncateLine_def)
  have p3: "n < length d \<and> 0 < n \<longrightarrow> length (truncateLine n d) \<le> n"
    using truncateLine_le by blast
  have p4: "n < length d \<and> 2 \<le> n \<and> trimmed d \<and> \<not> is_ws (d ! (n - 2)) \<longrightarrow>
            truncateLine n d = take (n - 1) d @ [ellipsis] \<and> length (truncateLine n d) = n"
    using ex by blast
  show ?thesis
    using first p1 p2 p3 p4 by (intro conjI)
qed

text \<open>
  A bullet of 300 letters under the compact limit of 120 becomes 119 letters and the
  ellipsis.
\<close>

theorem bullets_truncated_witness:
  "wellFormed (wordyResume longBullet) \<and> compactModeOf (wordyResume longBullet) \<and>
   length longBullet = 300 \<and>
   map (\<lambda>e. bullets (description e)) (outList experience (preprocessResume (Some (wordyResume longBullet))))
     = [[replicate 119 letterA @ [ellipsis]]] \<and>
   length (replicate 119 letterA @ [ellipsis]) = 120"
proof -
  have wf: "wellFormed (wordyResume longBullet)"
    by (simp add: wordyResume_def eval_input)
  have c: "compactModeOf (wordyResume longBullet)"
    by (simp add: wordyResume_def longBullet_def eval_input)
  have k: "filter keepExp (listOrEmpty (experience (wordyResume longBullet))) =
       [\<lparr> role = Some (js ''Dev''), company = Some (js ''Acme''),
          duration = Some [], description = DescArray [longBullet] \<rparr>]"
    by (simp add: wordyResume_def emptyResume_def listOrEmpty_def keepExp_def truthy_def js_def)
  have tl: "trimmed longBullet"
    by (simp add: longBullet_def trimmed_def not_ws_letterA)
  have nth: "\<not> is_ws (longBullet ! (120 - 2))"
    by (simp add: longBullet_def not_ws_letterA)
  have len: "120 < length longBullet"
    by (simp add: longBullet_def)
  have two: "(2::nat) \<le> 120"
    by simp
  have t: "truncateLine 120 longBullet = take (120 - 1) longBullet @ [ellipsis]"
    using bullets_truncated[OF wf, where n=120 and d=longBullet] tl nth len two
    by blast
  have "map (\<lambda>e. bullets (description e)) (outList experience (preprocessResume (Some (wordyResume longBullet))))
     = [[truncateLine 120 (trim longBullet)]]"
    by (simp add: out_eq(2)[OF wf] c k description_trimBullets) (simp add: bullets_def)
  then have "map (\<lambda>e. bullets (description e)) (outList experience (preprocessResume (Some (wordyResume longBullet))))
     = [[replicate 119 letterA @ [ellipsis]]]"
    by (simp add: trim_trimmed[OF tl] t) (simp add: longBullet_def)
  then show ?thesis
    using wf c by (simp add: longBullet_def)
qed

text \<open>
  C4 as stated fails: a bullet of 300 code units whose 119th is a space becomes 118
  letters and the ellipsis, 119 code units in all.
\<close>

theorem truncated_bullet_shorter_than_limit:
  "wellFormed (wordyResume spacedBullet) \<and> compactModeOf (wordyResume spacedBullet) \<and>
   length spacedBullet = 300 \<and>
   map (\<lambda>e. bullets (description e)) (outList experience (preprocessResume (Some (wordyResume spacedBullet))))
     = [[replicate 118 letterA @ [ellipsis]]] \<and>
   length (replicate 118 letterA @ [ellipsis]) = 119"
proof -
  have wf: "wellFormed (wordyResume spacedBullet)"
    by (simp add: wordyResume_def eval_input)
  have c: "compactModeOf (wordyResume spacedBullet)"
    by (simp add: wordyResume_def spacedBullet_def eval_input)
  have k: "filter keepExp (listOrEmpty (experience (wordyResume spacedBullet))) =
       [\<lparr> role = Some (js ''Dev''), company = Some (js ''Acme''),
          duration = Some [], description = DescArray [spacedBullet] \<rparr>]"
    by (simp add: wordyResume_def emptyResume_def listOrEmpty_def keepExp_def truthy_def js_def)
  have tl: "trimmed spacedBullet"
    by (simp add: spacedBullet_def trimmed_def not_ws_letterA hd_append)
  have tk: "take 119 spacedBullet = replicate 118 letterA @ [space]"
    by (simp add: spacedBullet_def)
  have tr: "trim (replicate 118 letterA @ [space]) = replicate 118 letterA"
    by (rule trim_snoc_ws) (simp_all add: trimmed_def not_ws_letterA is_ws_marks)
  have t: "truncateLine 120 spacedBullet = replicate 118 letterA @ [ellipsis]"
    by (simp add: truncateLine_def tk tr) (simp add: spacedBullet_def)
  have "map (\<lambda>e. bullets (description e)) (outList experience (preprocessResume (Some (wordyResume spacedBullet))))
     = [[truncateLine 120 (trim spacedBullet)]]"
    by (simp add: out_eq(2)[OF wf] c k description_trimBullets) (simp add: bullets_def)
  then have "map (\<lambda>e. bullets (description e)) (outList experience (preprocessResume (Some (wordyResume spacedBullet))))
     = [[replicate 118 letterA @ [ellipsis]]]"
    by (simp add: trim_trimmed[OF tl] t)
  then show ?thesis
    using wf c by (simp add: spacedBullet_def)
qed

text \<open>
  C3. An absent argument is rejected with the error \<open>input is required\<close>. But an argument
  that is present can be rejected too: an experience entry whose description is a
  non-empty string (the shape \<open>limitBulletPoints\<close> and the modern template accept) makes
  \<open>joinExpText\<close> call \<open>join\<close> on a string, a TypeError, before the \<open>Array.isArray\<close>
  test further down could default it to \<open>[]\<close>.
\<close>

theorem string_description_throws:
  "preprocessResume (Some stringDescription) = Inl TypeError \<and>
   preprocessResume (None :: ResumeData option) = Inl (Error ''preprocessResume: input is required'')"
proof -
  have "\<not> wellFormed stringDescription"
    by (simp add: stringDescription_def eval_input)
  then have "preprocessResume (Some stringDescription) = Inl TypeError"
    by (rule preprocess_throws)
  then show ?thesis
    by (simp add: preprocessResume_def)
qed

text \<open>
  C8 (amended). Let \<open>preprocessResume\<close> return \<open>y\<close> on \<open>x\<close>. If processing \<open>y\<close> again does
  not switch to compact mode where the first run was not compact, the second run
  returns and every list of its result (experience with its bullets, education,
  certifications, achievements, volunteer, skills, soft skills, languages, interests)
  equals the corresponding list of \<open>y\<close>; so all list lengths and all bullet lengths
  are unchanged.
\<close>

theorem rerun_stable:
  assumes run: "preprocessResume (Some x) = Inr (y, w)"
      and mode: "compactModeOf y \<longrightarrow> compactModeOf x"
  shows "(let r = preprocessResume (Some y) in
          \<not> isl r \<and>
          outList experience r = listOrEmpty (experience y) \<and>
          outList education r = listOrEmpty (education y) \<and>
          outList certifications r = listOrEmpty (certifications y) \<and>
          outList achivements r = listOrEmpty (achivements y) \<and>
          outList volunteer r = listOrEmpty (volunteer y) \<and>
          outList skills r = listOrEmpty (skills y) \<and>
          outList softSkills r = listOrEmpty (softSkills y) \<and>
          outList languages r = listOrEmpty (languages y) \<and>
          outList interests r = listOrEmpty (interests y))"
proof -
  define c where "c = compactModeOf x"
  define c' where "c' = compactModeOf y"
  have wf: "wellFormed x"
    using run preprocess_returns_iff[of x] by auto
  have wfy: "wellFormed y"
    using wf run by (rule wellFormed_result)
  note y = result_fields[OF wf run, folded c_def]
  let ?ys = "map (trimBullets (if c then 2 else 4) (if c then 120 else 220))
              (take (if c then 3 else 6) (filter keepExp (listOrEmpty (experience x))))"
  let ?es = "take (if c then 2 else 6) (filter keepEdu (listOrEmpty (education x)))"
  have caps: "(if c then 3 else 6) \<le> (if c' then 3 else (6::nat))"
       "(if c then 2 else 4) \<le> (if c' then 2 else (4::nat))"
       "(if c then 2 else 6) \<le> (if c' then 2 else (6::nat))"
       "(if c then 120 else 220) \<le> (if c' then 120 else (220::nat))"
       "(if c then 12 else 30) \<le> (if c' then 12 else (30::nat))"
       "(if c then 6 else 12) \<le> (if c' then 6 else (12::nat))"
       "(if c then 3 else 8) \<le> (if c' then 3 else (8::nat))"
       "0 < (if c then 120 else (220::nat))"
    using mode by (auto simp: c_def c'_def)
  have kys: "filter keepExp ?ys = ?ys"
    by (auto simp: filter_id_conv keepExp_trimBullets dest: in_set_takeD)
  have kes: "filter keepEdu ?es = ?es"
    by (auto simp: filter_id_conv dest: in_set_takeD)
  have lys: "length ?ys \<le> (if c' then 3 else 6)"
    using caps(1) by simp
  have les: "length ?es \<le> (if c' then 2 else 6)"
    using caps(3) by simp
  have "map (trimBullets (if c' then 2 else 4) (if c' then 120 else 220)) ?ys = ?ys"
    by (rule map_trimBullets_idem[OF caps(2) caps(4) caps(8)])
  then have e1: "map (trimBullets (if c' then 2 else 4) (if c' then 120 else 220))
              (take (if c' then 3 else 6) (filter keepExp ?ys)) = ?ys"
    unfolding kys using lys by (simp only: take_all)
  have e2: "take (if c' then 2 else 6) (filter keepEdu ?es) = ?es"
    unfolding kes using les by (simp only: take_all)
  have e3: "take 20 (map normCert (take 20 (map normCert cs))) = take 20 (map normCert cs)" for cs
    by (simp add: take_map[symmetric] normCert_idem comp_def)
  have x0: "extraOf c' y = []"
    unfolding extraOf_def y kys kes using lys les by simp
  have e4: "take (if c' then 6 else 12) (filter nonEmpty (uniq (map trim
              (take (if c then 6 else 12)
                (filter nonEmpty (uniq (map trim (listOrEmpty (achivements x)) @ extraOf c x)))) @ []))) =
            take (if c then 6 else 12)
                (filter nonEmpty (uniq (map trim (listOrEmpty (achivements x)) @ extraOf c x)))"
    by (rule achievements_idem[OF trimmed_extraOf caps(6)])
  have u: "uniqStrings (skills y) = uniqStrings (Some (listOrEmpty (skills y)))"
     "uniqStrings (softSkills y) = uniqStrings (Some (listOrEmpty (softSkills y)))"
     "uniqStrings (languages y) = uniqStrings (Some (listOrEmpty (languages y)))"
    by (rule uniqStrings_listOrEmpty)+
  note o = out_eq[OF wfy, folded c'_def]
  have r1: "\<not> isl (preprocessResume (Some y))" by (rule o(1))
  have r2: "outList experience (preprocessResume (Some y)) = listOrEmpty (experience y)"
    unfolding o(2) y(1) by (rule e1)
  have r3: "outList education (preprocessResume (Some y)) = listOrEmpty (education y)"
    unfolding o(3) y(2) by (rule e2)
  have r4: "outList certifications (preprocessResume (Some y)) = listOrEmpty (certifications y)"
    unfolding o(4) y(3) by (rule e3)
  have r5: "outList achivements (preprocessResume (Some y)) = listOrEmpty (achivements y)"
    unfolding o(5) y(4) x0 by (rule e4)
  have r6: "outList skills (preprocessResume (Some y)) = listOrEmpty (skills y)"
    unfolding o(6) u(1) unfolding y(5) by (rule uniqStrings_idem[OF caps(5)])
  have r7: "outList softSkills (preprocessResume (Some y)) = listOrEmpty (softSkills y)"
    unfolding o(7) u(2) unfolding y(6) by (rule uniqStrings_idem[OF caps(6)])
  have r8: "outList languages (preprocessResume (Some y)) = listOrEmpty (languages y)"
    unfolding o(8) u(3) unfolding y(7) by (rule uniqStrings_idem[OF caps(7)])
  show ?thesis
    unfolding Let_def using r1 r2 r3 r4 r5 r6 r7 r8 o(9) o(10) by (intro conjI)
qed

text \<open>
  Seven jobs under a short name: the first run keeps six and makes one achievement,
  and the second run, again non-compact, changes nothing.
\<close>

theorem rerun_stable_witness:
  "preprocessResume (Some (sevenJobsOf (js ''Ada''))) =
     Inr (fst (projr (preprocessResume (Some (sevenJobsOf (js ''Ada''))))),
          snd (projr (preprocessResume (Some (sevenJobsOf (js ''Ada'')))))) \<and>
   \<not> compactModeOf (fst (projr (preprocessResume (Some (sevenJobsOf (js ''Ada'')))))) \<and>
   outList experience (rerun (sevenJobsOf (js ''Ada''))) =
     outList experience (preprocessResume (Some (sevenJobsOf (js ''Ada'')))) \<and>
   length (outList experience (rerun (sevenJobsOf (js ''Ada'')))) = 6 \<and>
   outList achivements (rerun (sevenJobsOf (js ''Ada''))) =
     outList achivements (preprocessResume (Some (sevenJobsOf (js ''Ada''))))"
proof -
  let ?x = "sevenJobsOf (js ''Ada'')"
  define y where "y = fst (projr (preprocessResume (Some ?x)))"
  define w where "w = snd (projr (preprocessResume (Some ?x)))"
  have nc: "\<not> compactModeOf ?x"
    by (simp add: sevenJobsOf_def eval_input)
  note first = sevenJobs_first_run[OF nc]
  have run: "preprocessResume (Some ?x) = Inr (y, w)"
    using first(1) unfolding y_def w_def by (cases "preprocessResume (Some ?x)") auto
  have "compactModeOf y = compactModeOf (sevenJobsProcessed (js ''Ada''))"
    using compactModeOf_validate[of y] sevenJobs_validated[OF nc run] by simp
  also have "\<dots> = False"
    by (simp add: sevenJobsProcessed_def eval_input emdash_def bullet_def)
  finally have nc2: "\<not> compactModeOf y" by simp
  then have mode: "compactModeOf y \<longrightarrow> compactModeOf ?x" by simp
  have st: "outList experience (preprocessResume (Some y)) = listOrEmpty (experience y)"
    "outList achivements (preprocessResume (Some y)) = listOrEmpty (achivements y)"
    using rerun_stable[OF run mode] unfolding Let_def by blast+
  have rr: "rerun ?x = preprocessResume (Some y)"
    by (simp add: rerun_def run)
  have o: "outList experience (preprocessResume (Some ?x)) = listOrEmpty (experience y)"
    "outList achivements (preprocessResume (Some ?x)) = listOrEmpty (achivements y)"
    by (simp_all add: run outList_def)
  have "length (outList experience (rerun ?x)) = 6"
    using first(3) unfolding rr st o .
  then show ?thesis
    using run nc2 unfolding rr st o y_def[symmetric] w_def[symmetric] by simp
qed

text \<open>
  C8 as stated fails. Seven jobs under a name of 2068 code units have exactly 2200
  characters, so the first run is not compact: six jobs stay and the seventh becomes
  an achievement of 21 characters, which replaces 19 characters of experience text.
  The returned record has 2202 characters, so the second run is compact: it keeps three
  jobs and turns three more into achievements.
\<close>

theorem second_run_turns_compact:
  "\<not> isl (preprocessResume (Some (sevenJobsOf (replicate 2068 letterA)))) \<and>
   \<not> isl (rerun (sevenJobsOf (replicate 2068 letterA))) \<and>
   length (outList experience (preprocessResume (Some (sevenJobsOf (replicate 2068 letterA))))) = 6 \<and>
   length (outList experience (rerun (sevenJobsOf (replicate 2068 letterA)))) = 3 \<and>
   length (outList achivements (preprocessResume (Some (sevenJobsOf (replicate 2068 letterA))))) = 1 \<and>
   length (outList achivements (rerun (sevenJobsOf (replicate 2068 letterA)))) = 4"
proof -
  let ?n = "replicate 2068 letterA"
  have nc: "\<not> compactModeOf (sevenJobsOf ?n)"
    by (simp add: sevenJobsOf_def eval_input)
  note first = sevenJobs_first_run[OF nc]
  have wf2: "wellFormed (sevenJobsProcessed ?n)"
    by (simp add: sevenJobsProcessed_def eval_input)
  have c2: "compactModeOf (sevenJobsProcessed ?n)"
    by (simp add: sevenJobsProcessed_def eval_input emdash_def bullet_def)
  have e2: "length (outList experience (preprocessResume (Some (sevenJobsProcessed ?n)))) = 3"
    by (simp add: out_eq(2)[OF wf2] c2) (simp add: sevenJobsProcessed_def eval_record js_def)
  have a2: "length (outList achivements (preprocessResume (Some (sevenJobsProcessed ?n)))) = 4"
    by (simp add: out_eq(5)[OF wf2] c2)
       (simp add: sevenJobsProcessed_def extraOf_def entryText_def nonEmpty_def eval_record eval_string)
  show ?thesis
    using first(1,3,4) out_eq(1)[OF wf2] e2 a2 unfolding first(2) by (intro conjI)
qed


section \<open>Properties of the call on the store\<close>




end
